theory Spec2Isabelle
  imports Complex_Main
begin

section \<open>Python values\<close>

text \<open>
  A Python \<open>str\<close> is a sequence of Unicode code points and \<open>len\<close> counts code points,
  so a string is modelled as a list of code points. The function \<open>u\<close> embeds an ASCII
  literal, where \<open>CHR 0xEB\<close> is the character of code point 235; a code point
  above 255 is written as a number.
\<close>

type_synonym ustring = "nat list"

definition u :: "string \<Rightarrow> ustring" where
  "u s = map of_char s"

text \<open>
  The payload is the JSON object of the request: a dict from field names to values. The
  values modelled are strings and integers. \<open>payload.get(k, d)\<close> is \<open>pget\<close>.
\<close>

datatype pyval = PStr ustring | PInt int

datatype error = ValueError | TypeError | IndexError

type_synonym payload = "ustring \<rightharpoonup> pyval"

definition pget :: "payload \<Rightarrow> ustring \<Rightarrow> pyval \<Rightarrow> pyval" where
  "pget p k d = (case p k of None \<Rightarrow> d | Some v \<Rightarrow> v)"

subsection \<open>Whitespace and \<open>str.strip\<close>\<close>

text \<open>The code points for which \<open>str.isspace\<close> holds; \<open>strip()\<close> removes them at both ends.\<close>

definition py_isspace :: "nat \<Rightarrow> bool" where
  "py_isspace c \<longleftrightarrow>
     (9 \<le> c \<and> c \<le> 13) \<or> (28 \<le> c \<and> c \<le> 32) \<or> c = 133 \<or> c = 160 \<or> c = 5760 \<or>
     (8192 \<le> c \<and> c \<le> 8202) \<or> c = 8232 \<or> c = 8233 \<or> c = 8239 \<or> c = 8287 \<or> c = 12288"

definition py_strip :: "ustring \<Rightarrow> ustring" where
  "py_strip s = rev (dropWhile py_isspace (rev (dropWhile py_isspace s)))"

subsection \<open>\<open>int(...)\<close> and \<open>str(...)\<close>\<close>

text \<open>
  \<open>int(s)\<close> on a string: surrounding whitespace is dropped, one sign is allowed, then
  decimal digits follow, where single underscores may separate digits. Anything else raises
  \<open>ValueError\<close>. Decimal digits outside ASCII and the interpreter's limit on the number
  of digits are not modelled.
\<close>

definition is_digit :: "nat \<Rightarrow> bool" where
  "is_digit c \<longleftrightarrow> 48 \<le> c \<and> c \<le> 57"

fun underscores_ok :: "ustring \<Rightarrow> bool" where
  "underscores_ok [] = False"
| "underscores_ok [c] = is_digit c"
| "underscores_ok (c # d # cs) =
     (is_digit c \<and> (if d = 95 then underscores_ok cs else underscores_ok (d # cs)))"

fun digits_value :: "int \<Rightarrow> ustring \<Rightarrow> int" where
  "digits_value acc [] = acc"
| "digits_value acc (c # cs) =
     (if c = 95 then digits_value acc cs else digits_value (10 * acc + (int c - 48)) cs)"

definition py_int_str :: "ustring \<Rightarrow> error + int" where
  "py_int_str s =
     (let t = py_strip s;
          neg = (t \<noteq> [] \<and> hd t = 45);
          body = (if t \<noteq> [] \<and> (hd t = 45 \<or> hd t = 43) then tl t else t)
      in if underscores_ok body
         then Inr (if neg then - digits_value 0 body else digits_value 0 body)
         else Inl ValueError)"

fun py_int :: "pyval \<Rightarrow> error + int" where
  "py_int (PInt n) = Inr n"
| "py_int (PStr s) = py_int_str s"

text \<open>\<open>str(n)\<close> for an integer: its decimal digits, with a minus sign when negative.\<close>

function nat_digits :: "nat \<Rightarrow> ustring" where
  "nat_digits n = (if n < 10 then [48 + n] else nat_digits (n div 10) @ [48 + n mod 10])"
  by pat_completeness auto
termination
  by (relation "measure id") auto

declare nat_digits.simps [simp del]

definition py_str_int :: "int \<Rightarrow> ustring" where
  "py_str_int n = (if n < 0 then 45 # nat_digits (nat (- n)) else nat_digits (nat n))"

fun py_str :: "pyval \<Rightarrow> ustring" where
  "py_str (PStr s) = s"
| "py_str (PInt n) = py_str_int n"

section \<open>Maturity phase\<close>

text \<open>\<open>get_transitiefase\<close>: the phase name for a total, which is first converted by \<open>int\<close>.\<close>

definition get_transitiefase :: "pyval \<Rightarrow> error + ustring" where
  "get_transitiefase total_sum =
     (case py_int total_sum of
        Inl e \<Rightarrow> Inl e
      | Inr t \<Rightarrow>
          Inr (if 0 \<le> t \<and> t \<le> 14 then u ''Startfase''
               else if 15 \<le> t \<and> t \<le> 22 then u ''Aan de slag''
               else if 23 \<le> t \<and> t \<le> 30 then u ''Op de kaart''
               else if 31 \<le> t \<and> t \<le> 36 then u ''In control''
               else if 37 \<le> t \<and> t \<le> 40 then u ''Voorloper''
               else u ''Onbekend''))"

text \<open>
  \<open>create_score_breakdown_chart\<close> keeps the five phases in a list and picks the index of
  the current one from the total by its own chain of comparisons.
\<close>

definition phase_names :: "ustring list" where
  "phase_names =
     [u ''Startfase'', u ''Aan de slag'', u ''Op de kaart'', u ''In control'', u ''Voorloper'']"

definition current_phase :: "int \<Rightarrow> nat" where
  "current_phase total_score =
     (if total_score \<ge> 37 then 4
      else if total_score \<ge> 31 then 3
      else if total_score \<ge> 23 then 2
      else if total_score \<ge> 15 then 1
      else 0)"

text \<open>The bounds of the five buckets, as the comparisons of \<open>get_transitiefase\<close> have them.\<close>

definition bucket_bounds :: "(int \<times> int) list" where
  "bucket_bounds = [(0, 14), (15, 22), (23, 30), (31, 36), (37, 40)]"

definition in_bucket :: "nat \<Rightarrow> int \<Rightarrow> bool" where
  "in_bucket i t \<longleftrightarrow> fst (bucket_bounds ! i) \<le> t \<and> t \<le> snd (bucket_bounds ! i)"

section \<open>Star rating\<close>

text \<open>
  \<open>generate_star_rating\<close> computes with floats: every operation gives its exact result
  rounded to a float. A float is modelled by the rational number it stands for and the
  rounding by a parameter \<open>fl\<close>; with the identity for \<open>fl\<close> the arithmetic is exact.
\<close>

text \<open>\<open>int(x)\<close> of a float drops the fraction, towards zero.\<close>

definition py_trunc :: "rat \<Rightarrow> int" where
  "py_trunc x = (if x \<ge> 0 then \<lfloor>x\<rfloor> else \<lceil>x\<rceil>)"

text \<open>\<open>s * n\<close> for a string and an integer: the empty string when n is not positive.\<close>

definition py_repeat :: "ustring \<Rightarrow> int \<Rightarrow> ustring" where
  "py_repeat s n = concat (replicate (nat n) s)"

text \<open>The format \<open>.1f\<close>: one decimal, the value rounded to the nearest tenth, ties to even.\<close>

definition round_half_even :: "rat \<Rightarrow> int" where
  "round_half_even x =
     (let f = \<lfloor>x\<rfloor>; d = x - of_int f
      in if d < 1 / 2 then f else if d > 1 / 2 then f + 1 else if even f then f else f + 1)"

definition format_1f :: "rat \<Rightarrow> ustring" where
  "format_1f x =
     (let t = round_half_even (\<bar>x\<bar> * 10)
      in (if x < 0 then [45] else []) @ nat_digits (nat (t div 10)) @ [46] @ nat_digits (nat (t mod 10)))"

text \<open>\<open>normalized_score = (score / 10) * 5\<close>.\<close>

definition normalized :: "(rat \<Rightarrow> rat) \<Rightarrow> rat \<Rightarrow> rat" where
  "normalized fl score = fl (fl (score / 10) * 5)"

definition generate_star_rating :: "(rat \<Rightarrow> rat) \<Rightarrow> rat \<Rightarrow> ustring" where
  "generate_star_rating fl score =
     (let normalized_score = normalized fl score;
          full_circles = py_trunc normalized_score;
          remainder = fl (normalized_score - of_int full_circles);
          half_circle = (if remainder \<ge> 1 / 2 then 1 else 0 :: int);
          empty_circles = 5 - full_circles - half_circle;
          circle_string =
            py_repeat [9679] full_circles @ (if half_circle \<noteq> 0 then [9680] else []) @
            py_repeat [9675] empty_circles
      in circle_string @ u '' ('' @ format_1f normalized_score @ u ''/5)'')"

text \<open>
  What is used of the rounding: it keeps the order, it leaves 0, 0.5, 1 and 5 as they are
  (they are floats), and 0.7 * 5 gives 3.5. Rounding to the nearest float does all this, and
  so does exact arithmetic.
\<close>

definition float_rounding :: "(rat \<Rightarrow> rat) \<Rightarrow> bool" where
  "float_rounding fl \<longleftrightarrow>
     (\<forall>x y. x \<le> y \<longrightarrow> fl x \<le> fl y) \<and>
     fl 0 = 0 \<and> fl (1 / 2) = 1 / 2 \<and> fl 1 = 1 \<and> fl 5 = 5 \<and> fl (fl (7 / 10) * 5) = 7 / 2"

text \<open>The three circle characters: filled (U+25CF), half (U+25D0) and empty (U+25CB).\<close>

definition is_glyph :: "nat \<Rightarrow> bool" where
  "is_glyph c \<longleftrightarrow> c = 9679 \<or> c = 9680 \<or> c = 9675"

section \<open>Python strings, dicts and loops\<close>

text \<open>\<open>s.split(c)\<close> for a separator of one character: one more piece than separators.\<close>

fun py_split :: "nat \<Rightarrow> ustring \<Rightarrow> ustring list" where
  "py_split c [] = [[]]"
| "py_split c (x # xs) =
     (if x = c then [] # py_split c xs
      else (case py_split c xs of [] \<Rightarrow> [[x]] | w # ws \<Rightarrow> (x # w) # ws))"

text \<open>\<open>sep.join(ws)\<close>.\<close>

fun py_join :: "ustring \<Rightarrow> ustring list \<Rightarrow> ustring" where
  "py_join sep [] = []"
| "py_join sep [w] = w"
| "py_join sep (w # v # ws) = w @ sep @ py_join sep (v # ws)"

text \<open>\<open>s.startswith(p)\<close>, \<open>s.endswith(p)\<close> and the substring test \<open>sub in s\<close>.\<close>

fun startswith :: "ustring \<Rightarrow> ustring \<Rightarrow> bool" where
  "startswith s [] = True"
| "startswith [] (p # ps) = False"
| "startswith (x # xs) (p # ps) = (x = p \<and> startswith xs ps)"

definition endswith :: "ustring \<Rightarrow> ustring \<Rightarrow> bool" where
  "endswith s p = startswith (rev s) (rev p)"

fun py_contains :: "ustring \<Rightarrow> ustring \<Rightarrow> bool" where
  "py_contains sub [] = (sub = [])"
| "py_contains sub (x # xs) = (startswith (x # xs) sub \<or> py_contains sub xs)"

text \<open>
  \<open>s.replace(old, new)\<close> is \<open>py_replace old new s\<close>: the occurrences of \<open>old\<close> are
  found from the left and do not overlap. For an empty \<open>old\<close> Python puts \<open>new\<close> before
  every character and at the end.
\<close>

function py_replace :: "ustring \<Rightarrow> ustring \<Rightarrow> ustring \<Rightarrow> ustring" where
  "py_replace old new s =
     (if old = [] then new @ concat (map (\<lambda>c. c # new) s)
      else if s = [] then []
      else if startswith s old then new @ py_replace old new (drop (length old) s)
      else hd s # py_replace old new (tl s))"
  by pat_completeness auto
termination
  by (relation "measure (\<lambda>(old, new, s). length s)") auto

declare py_replace.simps [simp del]

text \<open>
  A dict that is iterated keeps the order in which its keys were first inserted; assigning
  to a key that is present replaces the value in place.
\<close>

fun dict_set :: "'k \<Rightarrow> 'v \<Rightarrow> ('k \<times> 'v) list \<Rightarrow> ('k \<times> 'v) list" where
  "dict_set k v [] = [(k, v)]"
| "dict_set k v ((k', v') # d) =
     (if k' = k then (k', v) # d else (k', v') # dict_set k v d)"

text \<open>A \<open>for\<close> loop whose body may raise: the first error leaves the loop.\<close>

fun for_each :: "('a \<Rightarrow> 's \<Rightarrow> error + 's) \<Rightarrow> 'a list \<Rightarrow> 's \<Rightarrow> error + 's" where
  "for_each body [] s = Inr s"
| "for_each body (x # xs) s =
     (case body x s of Inl e \<Rightarrow> Inl e | Inr s' \<Rightarrow> for_each body xs s')"

section \<open>Word wrapping of a table cell\<close>

text \<open>
  The loop over the words of a cell text, as it stands in both table renderers:
  \<open>current_line\<close> grows while the line with the next word stays within the limit,
  otherwise it is emitted (when not empty) and the word starts the next line.
\<close>

fun wrap_loop :: "nat \<Rightarrow> ustring list \<Rightarrow> ustring \<Rightarrow> ustring list \<Rightarrow> ustring list" where
  "wrap_loop limit [] current_line wrapped_lines =
     (if current_line \<noteq> [] then wrapped_lines @ [current_line] else wrapped_lines)"
| "wrap_loop limit (word # words) current_line wrapped_lines =
     (let test_line = (if current_line \<noteq> [] then current_line @ [32] @ word else word)
      in if length test_line \<le> limit
         then wrap_loop limit words test_line wrapped_lines
         else wrap_loop limit words word
                (if current_line \<noteq> [] then wrapped_lines @ [current_line] else wrapped_lines))"

definition wrap_text :: "nat \<Rightarrow> ustring \<Rightarrow> ustring list" where
  "wrap_text limit data = wrap_loop limit (py_split 32 data) [] []"

text \<open>
  The lines drawn in one cell: only column 2 is wrapped, and only when its text is longer
  than the limit; every other cell is drawn as it is.
\<close>

definition cell_lines :: "nat \<Rightarrow> nat \<Rightarrow> ustring \<Rightarrow> ustring list" where
  "cell_lines limit col_idx data =
     (if col_idx = 2 \<and> length data > limit then wrap_text limit data else [data])"

definition row_cells :: "nat \<Rightarrow> ustring list \<Rightarrow> ustring list list" where
  "row_cells limit row_data =
     map (\<lambda>(col_idx, data). cell_lines limit col_idx data) (enumerate 0 row_data)"

text \<open>All texts that are consecutive words joined by single spaces: words i up to j - 1, for i < j.\<close>

definition word_slices :: "ustring list \<Rightarrow> ustring list" where
  "word_slices ws =
     concat (map (\<lambda>j. map (\<lambda>i. py_join [32] (take (j - i) (drop i ws))) [0..<j])
               [0..<Suc (length ws)])"

section \<open>Text cleaning\<close>

text \<open>
  The two \<open>while\<close> loops of \<open>clean_text\<close> replace as long as the pattern occurs. Each
  round makes the text shorter, which is why they end.
\<close>

lemma py_replace_length_le:
  "old \<noteq> [] \<Longrightarrow> length new \<le> length old \<Longrightarrow> length (py_replace old new s) \<le> length s"
proof (induction old new s rule: py_replace.induct)
  case (1 old new s)
  show ?case
  proof (cases "s = []")
    case True
    with 1 show ?thesis by (simp add: py_replace.simps)
  next
    case False
    show ?thesis
    proof (cases "startswith s old")
      case True
      with 1 False have "length (py_replace old new (drop (length old) s)) \<le> length s - length old"
        by simp
      moreover have "length old \<le> length s"
        using True by (induction s old rule: startswith.induct) auto
      ultimately show ?thesis
        using 1(3,4) False True by (subst py_replace.simps) simp
    next
      case nsw: False
      with 1 False have "length (py_replace old new (tl s)) \<le> length s - 1"
        by simp
      then show ?thesis
        using 1(3) False nsw by (subst py_replace.simps) (cases s; simp)
    qed
  qed
qed

lemma startswith_length: "startswith s p \<Longrightarrow> length p \<le> length s"
  by (induction s p rule: startswith.induct) auto

lemma py_replace_length_less:
  "old \<noteq> [] \<Longrightarrow> length new < length old \<Longrightarrow> py_contains old s
   \<Longrightarrow> length (py_replace old new s) < length s"
proof (induction old new s rule: py_replace.induct)
  case (1 old new s)
  from 1(3,5) have ne: "s \<noteq> []" by (cases s) auto
  show ?case
  proof (cases "startswith s old")
    case True
    have "length (py_replace old new (drop (length old) s)) \<le> length s - length old"
      using py_replace_length_le [of old new "drop (length old) s"] 1(3,4) by simp
    moreover have "length old \<le> length s"
      using True by (rule startswith_length)
    ultimately show ?thesis
      using 1(3,4) ne True by (subst py_replace.simps) simp
  next
    case False
    then have "py_contains old (tl s)"
      using 1(5) ne by (cases s) auto
    with 1 ne False have "length (py_replace old new (tl s)) < length (tl s)"
      by simp
    then show ?thesis
      using 1(3) ne False by (subst py_replace.simps) (cases s; simp)
  qed
qed

text \<open>\<open>while '\n\n\n' in cleaned: cleaned = cleaned.replace('\n\n\n', '\n\n')\<close>\<close>

function collapse_newlines :: "ustring \<Rightarrow> ustring" where
  "collapse_newlines cleaned =
     (if py_contains [10, 10, 10] cleaned
      then collapse_newlines (py_replace [10, 10, 10] [10, 10] cleaned)
      else cleaned)"
  by pat_completeness auto
termination
  by (relation "measure length") (auto intro: py_replace_length_less)

text \<open>\<open>while '  ' in line: line = line.replace('  ', ' ')\<close>\<close>

function collapse_spaces :: "ustring \<Rightarrow> ustring" where
  "collapse_spaces line =
     (if py_contains [32, 32] line
      then collapse_spaces (py_replace [32, 32] [32] line)
      else line)"
  by pat_completeness auto
termination
  by (relation "measure length") (auto intro: py_replace_length_less)

declare collapse_newlines.simps [simp del] collapse_spaces.simps [simp del]

text \<open>
  The replacement dict of \<open>clean_text\<close>, in its order. The literal writes the key
  of carriage return and line feed twice (\<open>'\x0D\x0A'\<close> and \<open>'\r\n'\<close>), which is
  one key of the dict.
\<close>

definition clean_replacements :: "(ustring \<times> ustring) list" where
  "clean_replacements =
     [(u ''_x000A'', [10]),
      (u ''_x000D'', [13]),
      (u ''_x000B'', [10]),
      (u ''_x0009'', [9]),
      ([11], [10]),
      ([13, 10], [10])]"

definition clean_text :: "ustring \<Rightarrow> ustring" where
  "clean_text text =
     (let cleaned = fold (\<lambda>(encoded_char, actual_char). py_replace encoded_char actual_char)
                      clean_replacements text;
          cleaned = collapse_newlines cleaned;
          lines = py_split 10 cleaned;
          cleaned_lines = map (\<lambda>line. py_strip (collapse_spaces line)) lines
      in py_join [10] cleaned_lines)"

text \<open>The text \<open>"a\n \n \nb"\<close>: two lines that hold one space each.\<close>

definition blank_lines_text :: ustring where
  "blank_lines_text = [97, 10, 32, 10, 32, 10, 98]"


section \<open>Score extraction and the two advice tables\<close>

definition patientgericht :: ustring where
  "patientgericht = u (''Pati'' @ [CHR 0xEB] @ ''ntgericht procesontwerp'')"

definition field_mapping :: "(ustring \<times> ustring) list" where
  "field_mapping =
     [(u ''Governance_Q1'', u ''Visie op passende zorg''),
      (u ''Governance_Q2'', u ''Leiderschap en eigenaarschap''),
      (u ''Structuur_Q1'', u ''Regionale samenwerking''),
      (u ''Structuur_Q2'', u ''Tools en platforms''),
      (u ''Proces_Q1'', patientgericht),
      (u ''Proces_Q2'', u ''Leren en verbeteren''),
      (u ''Uitkomsten_en_sturing_Q1'', u ''Outcomegericht werken''),
      (u ''Uitkomsten_en_sturing_Q2'', u ''Monitoring en besluitvorming'')]"

text \<open>The numeric fields read by \<open>create_concrete_recommendations_report\<close>.\<close>

definition rec_numeric_fields :: "(ustring \<times> ustring) list" where
  "rec_numeric_fields =
     [(u ''Structuur_Q1_Numeric'', u ''Regionale samenwerking''),
      (u ''Structuur_Q2_Numeric'', u ''Tools en platforms''),
      (u ''Uitkomsten_en_sturing_Q1_Numeric'', u ''Outcomegericht werken''),
      (u ''Uitkomsten_en_sturing_Q2_Numeric'', u ''Monitoring en besluitvorming'')]"

text \<open>The numeric fields read by \<open>create_support_overview_report\<close>.\<close>

definition sup_numeric_fields :: "(ustring \<times> ustring) list" where
  "sup_numeric_fields =
     [(u ''Governance_Q1_Numeric'', u ''Visie op passende zorg''),
      (u ''Governance_Q2_Numeric'', u ''Leiderschap en eigenaarschap''),
      (u ''Structuur_Q1_Numeric'', u ''Regionale samenwerking''),
      (u ''Structuur_Q2_Numeric'', u ''Tools en platforms''),
      (u ''Proces_Q1_Numeric'', patientgericht),
      (u ''Proces_Q2_Numeric'', u ''Leren en verbeteren''),
      (u ''Uitkomsten_en_sturing_Q1_Numeric'', u ''Outcomegericht werken''),
      (u ''Uitkomsten_en_sturing_Q2_Numeric'', u ''Monitoring en besluitvorming'')]"

definition domain_mapping :: "(ustring \<times> ustring) list" where
  "domain_mapping =
     [(u ''Visie op passende zorg'', u ''Governance''),
      (u ''Leiderschap en eigenaarschap'', u ''Governance''),
      (u ''Regionale samenwerking'', u ''Structuur''),
      (u ''Tools en platforms'', u ''Structuur''),
      (patientgericht, u ''Proces''),
      (u ''Leren en verbeteren'', u ''Proces''),
      (u ''Outcomegericht werken'', u ''Uitkomsten & sturing''),
      (u ''Monitoring en besluitvorming'', u ''Uitkomsten & sturing'')]"

text \<open>
  \<open>isinstance(score_text, str) and score_text.strip()\<close>: the text when the value is a
  string that is not blank.
\<close>

fun nonblank_text :: "pyval \<Rightarrow> ustring option" where
  "nonblank_text (PStr s) = (if py_strip s \<noteq> [] then Some s else None)"
| "nonblank_text (PInt n) = None"

text \<open>\<open>int(score_text.split('.')[0])\<close>.\<close>

definition leading_int :: "ustring \<Rightarrow> error + int" where
  "leading_int s = (case py_split 46 s of [] \<Rightarrow> Inl IndexError | w # ws \<Rightarrow> py_int_str w)"

text \<open>
  The body of the first loop of \<open>create_concrete_recommendations_report\<close>, with its
  \<open>elif\<close> branch for a field whose name ends in \<open>_Numeric\<close>.
\<close>

definition rec_text_step ::
  "payload \<Rightarrow> ustring \<times> ustring \<Rightarrow> (ustring \<times> int) list \<Rightarrow> error + (ustring \<times> int) list" where
  "rec_text_step payload fs subdomain_scores =
     (case payload (fst fs) of
        None \<Rightarrow> Inr subdomain_scores
      | Some score_text \<Rightarrow>
          (case nonblank_text score_text of
             Some s \<Rightarrow>
               (case leading_int s of
                  Inl e \<Rightarrow> Inl e
                | Inr score \<Rightarrow> Inr (dict_set (snd fs) score subdomain_scores))
           | None \<Rightarrow>
               if endswith (fst fs) (u ''_Numeric'') \<and>
                  map_of field_mapping (py_replace (u ''_Numeric'') [] (fst fs)) \<noteq> None
               then
                 (case py_int score_text of
                    Inl e \<Rightarrow> Inl e
                  | Inr score \<Rightarrow>
                      (case map_of field_mapping (py_replace (u ''_Numeric'') [] (fst fs)) of
                         None \<Rightarrow> Inr subdomain_scores
                       | Some sd \<Rightarrow> Inr (dict_set sd score subdomain_scores)))
               else Inr subdomain_scores))"

text \<open>The body of the first loop of \<open>create_support_overview_report\<close>.\<close>

definition sup_text_step ::
  "payload \<Rightarrow> ustring \<times> ustring \<Rightarrow> (ustring \<times> int) list \<Rightarrow> error + (ustring \<times> int) list" where
  "sup_text_step payload fs subdomain_scores =
     (case payload (fst fs) of
        None \<Rightarrow> Inr subdomain_scores
      | Some score_text \<Rightarrow>
          (case nonblank_text score_text of
             Some s \<Rightarrow>
               (case leading_int s of
                  Inl e \<Rightarrow> Inl e
                | Inr score \<Rightarrow> Inr (dict_set (snd fs) score subdomain_scores))
           | None \<Rightarrow> Inr subdomain_scores))"

text \<open>The body of the loop over the numeric fields, the same in both renderers.\<close>

definition numeric_step ::
  "payload \<Rightarrow> ustring \<times> ustring \<Rightarrow> (ustring \<times> int) list \<Rightarrow> error + (ustring \<times> int) list" where
  "numeric_step payload fs subdomain_scores =
     (case payload (fst fs) of
        None \<Rightarrow> Inr subdomain_scores
      | Some v \<Rightarrow>
          (case py_int v of
             Inl e \<Rightarrow> Inl e
           | Inr score \<Rightarrow> Inr (dict_set (snd fs) score subdomain_scores)))"

definition recommendation_scores :: "payload \<Rightarrow> error + (ustring \<times> int) list" where
  "recommendation_scores payload =
     (case for_each (rec_text_step payload) field_mapping [] of
        Inl e \<Rightarrow> Inl e
      | Inr subdomain_scores \<Rightarrow> for_each (numeric_step payload) rec_numeric_fields subdomain_scores)"

definition support_scores :: "payload \<Rightarrow> error + (ustring \<times> int) list" where
  "support_scores payload =
     (case for_each (sup_text_step payload) field_mapping [] of
        Inl e \<Rightarrow> Inl e
      | Inr subdomain_scores \<Rightarrow> for_each (numeric_step payload) sup_numeric_fields subdomain_scores)"

record advice_entry =
  advice :: ustring
  support :: ustring
  support_type :: ustring

record support_entry =
  sup_support_type :: ustring
  description :: ustring

definition advice_mapping :: "((ustring \<times> int) \<times> advice_entry) list" where
  "advice_mapping = [
     ((u ''Visie op passende zorg'', 1),
      \<lparr>advice = u ''Faciliteer een visie- en inspiratiesessie met stakeholders.'',
       support = u ''Startsessie of training: visie, netwerk of dashboard opzetten.'',
       support_type = u ''Training''\<rparr>),
     ((u ''Visie op passende zorg'', 2),
      \<lparr>advice = u (''Vertaal losse idee'' @ [CHR 0xEB] @ ''n naar een eerste conceptvisie.''),
       support = u ''Co-creatie workshop: structuur of pilotplan uitwerken.'',
       support_type = u ''Workshop''\<rparr>),
     ((u ''Visie op passende zorg'', 3),
      \<lparr>advice = u ''Verscherp visie en koppel concrete doelen en termijnen.'',
       support = u ''Consultancy: concretiseer aanpak en borg werkwijze.'',
       support_type = u ''Consultancy''\<rparr>),
     ((u ''Leiderschap en eigenaarschap'', 1),
      \<lparr>advice = u ''Benoem een bestuurlijk ambassadeur voor passende zorg.'',
       support = u ''Startsessie of training: visie, netwerk of dashboard opzetten.'',
       support_type = u ''Training''\<rparr>),
     ((u ''Leiderschap en eigenaarschap'', 2),
      \<lparr>advice = u ''Betrek bestuur actief bij voortgang en beslismomenten.'',
       support = u ''Co-creatie workshop: structuur of pilotplan uitwerken.'',
       support_type = u ''Workshop''\<rparr>),
     ((u ''Leiderschap en eigenaarschap'', 3),
      \<lparr>advice = u ''Geef bestuur formele rol in governance.'',
       support = u ''Consultancy: concretiseer aanpak en borg werkwijze.'',
       support_type = u ''Consultancy''\<rparr>),
     ((u ''Regionale samenwerking'', 1),
      \<lparr>advice = u ''Breng partners in kaart en start eerste verkenningsgesprekken.'',
       support = u ''Startsessie of training: visie, netwerk of dashboard opzetten.'',
       support_type = u ''Training''\<rparr>),
     ((u ''Regionale samenwerking'', 2),
      \<lparr>advice = u ''Organiseer maandelijks thematisch netwerkoverleg.'',
       support = u ''Co-creatie workshop: structuur of pilotplan uitwerken.'',
       support_type = u ''Workshop''\<rparr>),
     ((u ''Regionale samenwerking'', 3),
      \<lparr>advice = u ''Versterk met gezamenlijke doelen en actielijst.'',
       support = u ''Consultancy: concretiseer aanpak en borg werkwijze.'',
       support_type = u ''Consultancy''\<rparr>),
     ((u ''Tools en platforms'', 1),
      \<lparr>advice = u ''Start met gedeelde mappen of formats.'',
       support = u ''Startsessie of training: visie, netwerk of dashboard opzetten.'',
       support_type = u ''Training''\<rparr>),
     ((u ''Tools en platforms'', 2),
      \<lparr>advice = u ''Verken dashboard-tools of Zoho/PowerBI.'',
       support = u ''Co-creatie workshop: structuur of pilotplan uitwerken.'',
       support_type = u ''Workshop''\<rparr>),
     ((u ''Tools en platforms'', 3),
      \<lparr>advice = u ''Versnel ontwikkeling en test actief met gebruikers.'',
       support = u ''Consultancy: concretiseer aanpak en borg werkwijze.'',
       support_type = u ''Consultancy''\<rparr>),
     ((patientgericht, 1),
      \<lparr>advice = u (''Visualiseer de pati'' @ [CHR 0xEB] @ ''ntreis met team of pati'' @ [CHR 0xEB] @ ''ntpanel.''),
       support = u ''Startsessie of training: visie, netwerk of dashboard opzetten.'',
       support_type = u ''Training''\<rparr>),
     ((patientgericht, 2),
      \<lparr>advice = u (''Evalueer pilots en werk verbeteridee'' @ [CHR 0xEB] @ ''n verder uit.''),
       support = u ''Co-creatie workshop: structuur of pilotplan uitwerken.'',
       support_type = u ''Workshop''\<rparr>),
     ((patientgericht, 3),
      \<lparr>advice = u ''Standaardiseer het proces en monitor op resultaat.'',
       support = u ''Consultancy: concretiseer aanpak en borg werkwijze.'',
       support_type = u ''Consultancy''\<rparr>),
     ((u ''Leren en verbeteren'', 1),
      \<lparr>advice = u ''Start met reflectie- of verbetermomenten per kwartaal.'',
       support = u ''Startsessie of training: visie, netwerk of dashboard opzetten.'',
       support_type = u ''Training''\<rparr>),
     ((u ''Leren en verbeteren'', 2),
      \<lparr>advice = u ''Implementeer eenvoudige PDCA-cyclus op teamniveau.'',
       support = u ''Co-creatie workshop: structuur of pilotplan uitwerken.'',
       support_type = u ''Workshop''\<rparr>),
     ((u ''Leren en verbeteren'', 3),
      \<lparr>advice = u ''Borg deze in overleggen en dashboards.'',
       support = u ''Consultancy: concretiseer aanpak en borg werkwijze.'',
       support_type = u ''Consultancy''\<rparr>),
     ((u ''Outcomegericht werken'', 1),
      \<lparr>advice = u ''Definieer 2'' @ [8211] @ u ''3 relevante uitkomstindicatoren.'',
       support = u ''Startsessie of training: visie, netwerk of dashboard opzetten.'',
       support_type = u ''Training''\<rparr>),
     ((u ''Outcomegericht werken'', 2),
      \<lparr>advice = u ''Maak ze zichtbaar in teamoverleg of dashboard.'',
       support = u ''Co-creatie workshop: structuur of pilotplan uitwerken.'',
       support_type = u ''Workshop''\<rparr>),
     ((u ''Outcomegericht werken'', 3),
      \<lparr>advice = u ''Koppel outcome aan proces- en beslisinformatie.'',
       support = u ''Consultancy: concretiseer aanpak en borg werkwijze.'',
       support_type = u ''Consultancy''\<rparr>),
     ((u ''Monitoring en besluitvorming'', 1),
      \<lparr>advice = u ''Start met een maandelijks stuurmoment.'',
       support = u ''Startsessie of training: visie, netwerk of dashboard opzetten.'',
       support_type = u ''Training''\<rparr>),
     ((u ''Monitoring en besluitvorming'', 2),
      \<lparr>advice = u ''Introduceer KPI-dashboard met kwartaalupdate.'',
       support = u ''Co-creatie workshop: structuur of pilotplan uitwerken.'',
       support_type = u ''Workshop''\<rparr>),
     ((u ''Monitoring en besluitvorming'', 3),
      \<lparr>advice = u ''Train teams in gebruik en interpretatie.'',
       support = u ''Consultancy: concretiseer aanpak en borg werkwijze.'',
       support_type = u ''Consultancy''\<rparr>)]"

definition support_mapping :: "((ustring \<times> int) \<times> support_entry) list" where
  "support_mapping = [
     ((u ''Visie op passende zorg'', 1),
      \<lparr>sup_support_type = u ''Training'',
       description = u ''Startsessie of training: visie, netwerk of dashboard opzetten.''\<rparr>),
     ((u ''Visie op passende zorg'', 2),
      \<lparr>sup_support_type = u ''Workshop'',
       description = u ''Co-creatie workshop: structuur of pilotplan uitwerken.''\<rparr>),
     ((u ''Visie op passende zorg'', 3),
      \<lparr>sup_support_type = u ''Consultancy'',
       description = u ''Consultancy: concretiseer aanpak en borg werkwijze.''\<rparr>),
     ((u ''Leiderschap en eigenaarschap'', 1),
      \<lparr>sup_support_type = u ''Training'',
       description = u ''Startsessie of training: visie, netwerk of dashboard opzetten.''\<rparr>),
     ((u ''Leiderschap en eigenaarschap'', 2),
      \<lparr>sup_support_type = u ''Workshop'',
       description = u ''Co-creatie workshop: structuur of pilotplan uitwerken.''\<rparr>),
     ((u ''Leiderschap en eigenaarschap'', 3),
      \<lparr>sup_support_type = u ''Consultancy'',
       description = u ''Consultancy: concretiseer aanpak en borg werkwijze.''\<rparr>),
     ((u ''Regionale samenwerking'', 1),
      \<lparr>sup_support_type = u ''Training'',
       description = u ''Startsessie of training: visie, netwerk of dashboard opzetten.''\<rparr>),
     ((u ''Regionale samenwerking'', 2),
      \<lparr>sup_support_type = u ''Workshop'',
       description = u ''Co-creatie workshop: structuur of pilotplan uitwerken.''\<rparr>),
     ((u ''Regionale samenwerking'', 3),
      \<lparr>sup_support_type = u ''Consultancy'',
       description = u ''Consultancy: concretiseer aanpak en borg werkwijze.''\<rparr>),
     ((u ''Tools en platforms'', 1),
      \<lparr>sup_support_type = u ''Training'',
       description = u ''Startsessie of training: visie, netwerk of dashboard opzetten.''\<rparr>),
     ((u ''Tools en platforms'', 2),
      \<lparr>sup_support_type = u ''Workshop'',
       description = u ''Co-creatie workshop: structuur of pilotplan uitwerken.''\<rparr>),
     ((u ''Tools en platforms'', 3),
      \<lparr>sup_support_type = u ''Consultancy'',
       description = u ''Consultancy: concretiseer aanpak en borg werkwijze.''\<rparr>),
     ((patientgericht, 1),
      \<lparr>sup_support_type = u ''Training'',
       description = u ''Startsessie of training: visie, netwerk of dashboard opzetten.''\<rparr>),
     ((patientgericht, 2),
      \<lparr>sup_support_type = u ''Workshop'',
       description = u ''Co-creatie workshop: structuur of pilotplan uitwerken.''\<rparr>),
     ((patientgericht, 3),
      \<lparr>sup_support_type = u ''Consultancy'',
       description = u ''Consultancy: concretiseer aanpak en borg werkwijze.''\<rparr>),
     ((u ''Leren en verbeteren'', 1),
      \<lparr>sup_support_type = u ''Training'',
       description = u ''Startsessie of training: visie, netwerk of dashboard opzetten.''\<rparr>),
     ((u ''Leren en verbeteren'', 2),
      \<lparr>sup_support_type = u ''Workshop'',
       description = u ''Co-creatie workshop: structuur of pilotplan uitwerken.''\<rparr>),
     ((u ''Leren en verbeteren'', 3),
      \<lparr>sup_support_type = u ''Consultancy'',
       description = u ''Consultancy: concretiseer aanpak en borg werkwijze.''\<rparr>),
     ((u ''Outcomegericht werken'', 1),
      \<lparr>sup_support_type = u ''Training'',
       description = u ''Startsessie of training: visie, netwerk of dashboard opzetten.''\<rparr>),
     ((u ''Outcomegericht werken'', 2),
      \<lparr>sup_support_type = u ''Workshop'',
       description = u ''Co-creatie workshop: structuur of pilotplan uitwerken.''\<rparr>),
     ((u ''Outcomegericht werken'', 3),
      \<lparr>sup_support_type = u ''Consultancy'',
       description = u ''Consultancy: concretiseer aanpak en borg werkwijze.''\<rparr>),
     ((u ''Monitoring en besluitvorming'', 1),
      \<lparr>sup_support_type = u ''Training'',
       description = u ''Startsessie of training: visie, netwerk of dashboard opzetten.''\<rparr>),
     ((u ''Monitoring en besluitvorming'', 2),
      \<lparr>sup_support_type = u ''Workshop'',
       description = u ''Co-creatie workshop: structuur of pilotplan uitwerken.''\<rparr>),
     ((u ''Monitoring en besluitvorming'', 3),
      \<lparr>sup_support_type = u ''Consultancy'',
       description = u ''Consultancy: concretiseer aanpak en borg werkwijze.''\<rparr>)]"

record recommendation =
  rec_full_name :: ustring
  rec_organization :: pyval
  rec_subdomain :: ustring
  rec_domain :: ustring
  rec_score :: int
  rec_advice :: ustring
  rec_support :: ustring
  rec_support_type :: ustring

record support_recommendation =
  srec_subdomain :: ustring
  srec_support_type :: ustring
  srec_description :: ustring
  srec_score :: int

text \<open>\<open>f"{first_name} {last_name}".strip()\<close>.\<close>

definition full_name_of :: "payload \<Rightarrow> ustring" where
  "full_name_of payload =
     py_strip (py_str (pget payload (u ''First_Name'') (PStr [])) @ [32] @
               py_str (pget payload (u ''Last_Name'') (PStr [])))"

text \<open>The filter loops: a subdomain is kept when its score is at most 3 and the table has its key.\<close>

fun collect_recommendations ::
  "payload \<Rightarrow> (ustring \<times> int) list \<Rightarrow> recommendation list \<Rightarrow> recommendation list" where
  "collect_recommendations payload [] recommendations = recommendations"
| "collect_recommendations payload ((subdomain, score) # rest) recommendations =
     collect_recommendations payload rest
       (if score \<le> 3
        then (case map_of advice_mapping (subdomain, score) of
                None \<Rightarrow> recommendations
              | Some r \<Rightarrow>
                  recommendations @
                  [\<lparr>rec_full_name = full_name_of payload,
                    rec_organization = pget payload (u ''Organization'') (PStr (u ''Organization'')),
                    rec_subdomain = subdomain,
                    rec_domain = (case map_of domain_mapping subdomain of None \<Rightarrow> [] | Some d \<Rightarrow> d),
                    rec_score = score,
                    rec_advice = advice r,
                    rec_support = support r,
                    rec_support_type = support_type r\<rparr>])
        else recommendations)"

fun collect_support ::
  "(ustring \<times> int) list \<Rightarrow> support_recommendation list \<Rightarrow> support_recommendation list" where
  "collect_support [] support_recommendations = support_recommendations"
| "collect_support ((subdomain, score) # rest) support_recommendations =
     collect_support rest
       (if score \<le> 3
        then (case map_of support_mapping (subdomain, score) of
                None \<Rightarrow> support_recommendations
              | Some support_info \<Rightarrow>
                  support_recommendations @
                  [\<lparr>srec_subdomain = subdomain,
                    srec_support_type = sup_support_type support_info,
                    srec_description = description support_info,
                    srec_score = score\<rparr>])
        else support_recommendations)"

section \<open>The two table renderers\<close>

text \<open>
  What a renderer draws: either the single congratulatory message, or a table with its
  header row and, per data row, the text lines of each of its four cells. Colours, sizes
  and positions inside the image are left out, and so is everything the drawing library
  does with them.
\<close>

datatype report = Message ustring | Table "ustring list" "ustring list list list"

definition create_concrete_recommendations_report :: "payload \<Rightarrow> error + report" where
  "create_concrete_recommendations_report payload =
     (case recommendation_scores payload of
        Inl e \<Rightarrow> Inl e
      | Inr subdomain_scores \<Rightarrow>
          (let recommendations = collect_recommendations payload subdomain_scores []
           in if recommendations = []
              then Inr (Message (u ''Gefeliciteerd! Alle scores zijn hoger dan 3.'' @ [10] @
                                 u ''Geen concrete aanbevelingen nodig.''))
              else Inr (Table [u ''Domain'', u ''Subdomain'', u ''Advice'', u ''Score'']
                         (map (\<lambda>r. row_cells 45
                                 [rec_domain r, rec_subdomain r, rec_advice r, py_str_int (rec_score r)])
                            recommendations))))"

definition create_support_overview_report :: "payload \<Rightarrow> error + report" where
  "create_support_overview_report payload =
     (case support_scores payload of
        Inl e \<Rightarrow> Inl e
      | Inr subdomain_scores \<Rightarrow>
          (let support_recommendations = collect_support subdomain_scores []
           in if support_recommendations = []
              then Inr (Message (u ''Gefeliciteerd! Alle scores zijn hoger dan 3.'' @ [10] @
                                 u ''Geen ondersteuning nodig.''))
              else Inr (Table [u ''Subdomain'', u ''Support Type'', u ''Description'', u ''Score'']
                         (map (\<lambda>r. row_cells 60
                                 [srec_subdomain r, srec_support_type r, srec_description r,
                                  py_str_int (srec_score r)])
                            support_recommendations))))"

section \<open>Placeholder values\<close>

text \<open>\<open>int(payload.get(key, 0))\<close>.\<close>

definition numeric_score :: "payload \<Rightarrow> ustring \<Rightarrow> error + int" where
  "numeric_score payload key = py_int (pget payload key (PInt 0))"

definition keywords_map :: "(ustring \<times> ustring) list" where
  "keywords_map =
     [(u ''Governance_Q1_Numeric'', u ''Visie''),
      (u ''Governance_Q2_Numeric'', u ''Leiderschap''),
      (u ''Structuur_Q1_Numeric'', u ''Samenwerking''),
      (u ''Structuur_Q2_Numeric'', u ''Tools''),
      (u ''Proces_Q1_Numeric'', u (''Pati'' @ [CHR 0xEB] @ ''ntgericht'')),
      (u ''Proces_Q2_Numeric'', u ''Leren''),
      (u ''Uitkomsten_en_sturing_Q1_Numeric'', u ''Uitkomsten''),
      (u ''Uitkomsten_en_sturing_Q2_Numeric'', u ''Data'')]"

text \<open>The body of the loop of \<open>get_lowest_scoring_domains\<close>.\<close>

definition lowest_step ::
  "payload \<Rightarrow> ustring \<times> ustring \<Rightarrow> ustring list \<Rightarrow> error + ustring list" where
  "lowest_step payload kk low_scoring =
     (case numeric_score payload (fst kk) of
        Inl e \<Rightarrow> Inl e
      | Inr score \<Rightarrow>
          Inr (if score = 1 \<or> score = 2
               then low_scoring @ [snd kk @ u '': '' @ py_str_int score]
               else low_scoring))"

definition get_lowest_scoring_domains :: "payload \<Rightarrow> error + ustring" where
  "get_lowest_scoring_domains payload =
     (case for_each (lowest_step payload) keywords_map [] of
        Inl e \<Rightarrow> Inl e
      | Inr low_scoring \<Rightarrow>
          Inr (if low_scoring \<noteq> [] then py_join (u '', '') low_scoring
               else u ''Geen lage scores''))"

text \<open>
  The replacements of \<open>replace_placeholders\<close> for the slides 0, 3 and 8. The report date
  comes from the clock and is a parameter here. The organization is whatever value the
  payload holds; the other values are strings.
\<close>

definition slide_replacements ::
  "payload \<Rightarrow> ustring \<Rightarrow> ustring \<Rightarrow> ustring \<Rightarrow> (nat \<times> (ustring \<times> pyval) list) list" where
  "slide_replacements payload report_date transitiefase lowest_domains =
     (let organization = pget payload (u ''Organization'') (PStr []);
          respondent_name = full_name_of payload;
          total_sum = pget payload (u ''Total_Sum'') (PStr (u ''0''))
      in [(0, [(u ''{{organisatie}}'', organization),
               (u ''{{rapport_datum}}'', PStr report_date),
               (u ''{{respondent_naam}}'', PStr respondent_name)]),
          (3, [(u ''{{organisatie}}'', organization),
               (u ''{{totaalscore}}'', PStr (py_str total_sum)),
               (u ''{{transitiefase_naam}}'', PStr transitiefase)]),
          (8, [(u ''{{organisatie}}'', organization),
               (u ''{{transitiefase}}'', PStr transitiefase),
               (u ''{{laagst_scorende_domein}}'', PStr lowest_domains)])])"

section \<open>The presentation\<close>

text \<open>
  A presentation is its list of slides, a slide its list of shapes. A shape either has a
  text frame with paragraphs of runs, or only a text, or neither; a picture holds its image
  and its rectangle (left, top, width, height, in inches as the source writes them).
\<close>

record font =
  font_name :: "ustring option"
  font_size :: "int option"
  font_bold :: "bool option"
  font_italic :: "bool option"
  font_color :: "nat option"

record run =
  run_text :: ustring
  run_font :: font

type_synonym pptx_paragraph = "run list"

type_synonym rect = "rat \<times> rat \<times> rat \<times> rat"

text \<open>An image is one of the two tables modelled above or the output of another renderer.\<close>

datatype 'img image = Report report | Drawn 'img

datatype 'img shape =
  TextFrame "pptx_paragraph list" | PlainText ustring | Picture "'img image" rect | OtherShape

type_synonym 'img slide = "'img shape list"

type_synonym 'img presentation = "'img slide list"

subsection \<open>Placeholder substitution\<close>

definition paragraph_text :: "pptx_paragraph \<Rightarrow> ustring" where
  "paragraph_text p = concat (map run_text p)"

text \<open>
  One placeholder in a paragraph: it is looked for in the original text of the paragraph
  and replaced in the text built so far. \<open>str.replace\<close> raises \<open>TypeError\<close> when the
  value is not a string.
\<close>

definition paragraph_step ::
  "ustring \<Rightarrow> ustring \<times> pyval \<Rightarrow> ustring \<times> bool \<Rightarrow> error + ustring \<times> bool" where
  "paragraph_step paragraph_txt pv st =
     (if py_contains (fst pv) paragraph_txt
      then (case snd pv of
              PStr v \<Rightarrow> Inr (py_replace (fst pv) v (fst st), True)
            | PInt n \<Rightarrow> Inl TypeError)
      else Inr st)"

text \<open>
  The formatting given to the new run: that of the first run, where a name, a size or a
  colour is only set when it is there (and not empty or zero); no run, no formatting.
\<close>

definition new_run_font :: "pptx_paragraph \<Rightarrow> font" where
  "new_run_font p =
     (case p of
        [] \<Rightarrow> \<lparr>font_name = None, font_size = None, font_bold = None, font_italic = None,
               font_color = None\<rparr>
      | r # rs \<Rightarrow>
          \<lparr>font_name = (case font_name (run_font r) of
                           None \<Rightarrow> None | Some n \<Rightarrow> if n \<noteq> [] then Some n else None),
           font_size = (case font_size (run_font r) of
                           None \<Rightarrow> None | Some z \<Rightarrow> if z \<noteq> 0 then Some z else None),
           font_bold = font_bold (run_font r),
           font_italic = font_italic (run_font r),
           font_color = font_color (run_font r)\<rparr>)"

definition process_paragraph :: "(ustring \<times> pyval) list \<Rightarrow> pptx_paragraph \<Rightarrow> error + pptx_paragraph" where
  "process_paragraph replacements p =
     (case for_each (paragraph_step (paragraph_text p)) replacements (paragraph_text p, False) of
        Inl e \<Rightarrow> Inl e
      | Inr st \<Rightarrow>
          Inr (if snd st
               then [\<lparr>run_text = clean_text (fst st), run_font = new_run_font p\<rparr>]
               else p))"

text \<open>A shape with only a text: here the placeholder is looked for in the text built so far.\<close>

definition plain_step :: "ustring \<times> pyval \<Rightarrow> ustring \<Rightarrow> error + ustring" where
  "plain_step pv new_text =
     (if py_contains (fst pv) new_text
      then (case snd pv of
              PStr v \<Rightarrow> Inr (py_replace (fst pv) v new_text)
            | PInt n \<Rightarrow> Inl TypeError)
      else Inr new_text)"

text \<open>A loop that rebuilds a list, element by element; the first error leaves it.\<close>

fun map_each :: "('a \<Rightarrow> error + 'b) \<Rightarrow> 'a list \<Rightarrow> error + 'b list" where
  "map_each f [] = Inr []"
| "map_each f (x # xs) =
     (case f x of
        Inl e \<Rightarrow> Inl e
      | Inr y \<Rightarrow> (case map_each f xs of Inl e \<Rightarrow> Inl e | Inr ys \<Rightarrow> Inr (y # ys)))"

definition process_shape :: "(ustring \<times> pyval) list \<Rightarrow> 'img shape \<Rightarrow> error + 'img shape" where
  "process_shape replacements shape =
     (case shape of
        TextFrame paragraphs \<Rightarrow>
          (case map_each (process_paragraph replacements) paragraphs of
             Inl e \<Rightarrow> Inl e
           | Inr ps \<Rightarrow> Inr (TextFrame ps))
      | PlainText original_text \<Rightarrow>
          (case for_each plain_step replacements original_text of
             Inl e \<Rightarrow> Inl e
           | Inr new_text \<Rightarrow>
               Inr (PlainText (if new_text \<noteq> original_text then clean_text new_text
                               else original_text)))
      | Picture img r \<Rightarrow> Inr (Picture img r)
      | OtherShape \<Rightarrow> Inr OtherShape)"

definition process_slide :: "(ustring \<times> pyval) list \<Rightarrow> 'img slide \<Rightarrow> error + 'img slide" where
  "process_slide replacements slide = map_each (process_shape replacements) slide"

text \<open>
  Work on \<open>presentation.slides[slide_index]\<close>: indexing raises \<open>IndexError\<close> when
  there is no such slide, otherwise the slide is changed in place.
\<close>

definition at_slide ::
  "nat \<Rightarrow> ('img slide \<Rightarrow> error + 'img slide) \<Rightarrow> 'img presentation \<Rightarrow> error + 'img presentation" where
  "at_slide slide_index f presentation =
     (if slide_index < length presentation
      then (case f (presentation ! slide_index) of
              Inl e \<Rightarrow> Inl e
            | Inr slide \<Rightarrow> Inr (presentation[slide_index := slide]))
      else Inl IndexError)"

definition replace_placeholders ::
  "'img presentation \<Rightarrow> payload \<Rightarrow> ustring \<Rightarrow> error + 'img presentation" where
  "replace_placeholders presentation payload report_date =
     (case get_transitiefase (pget payload (u ''Total_Sum'') (PStr (u ''0''))) of
        Inl e \<Rightarrow> Inl e
      | Inr transitiefase \<Rightarrow>
          (case get_lowest_scoring_domains payload of
             Inl e \<Rightarrow> Inl e
           | Inr lowest_domains \<Rightarrow>
               for_each
                 (\<lambda>sr pres.
                    if fst sr < length pres then at_slide (fst sr) (process_slide (snd sr)) pres
                    else Inr pres)
                 (slide_replacements payload report_date transitiefase lowest_domains)
                 presentation))"

subsection \<open>Image composition\<close>

text \<open>
  The four renderers that are not modelled above are parameters: each takes the payload
  and gives an image or raises.
\<close>

record 'img renderers =
  create_score_breakdown_chart :: "payload \<Rightarrow> error + 'img"
  create_domain_scores_table :: "payload \<Rightarrow> error + 'img"
  create_domain_subdomain_report :: "payload \<Rightarrow> error + 'img"
  create_spider_chart_report :: "payload \<Rightarrow> error + 'img"

definition add_picture :: "'img image \<Rightarrow> rect \<Rightarrow> 'img slide \<Rightarrow> 'img slide" where
  "add_picture img r slide = slide @ [Picture img r]"

definition add_score_breakdown_to_slide4 ::
  "'img renderers \<Rightarrow> 'img slide \<Rightarrow> payload \<Rightarrow> error + 'img slide" where
  "add_score_breakdown_to_slide4 R slide payload =
     (case create_score_breakdown_chart R payload of
        Inl e \<Rightarrow> Inl e
      | Inr img \<Rightarrow> Inr (add_picture (Drawn img) (1 / 2, 3 / 2 - 9 / 10, 12, 11 / 2 - 3 / 2) slide))"

definition add_domain_scores_chart ::
  "'img renderers \<Rightarrow> 'img slide \<Rightarrow> payload \<Rightarrow> error + 'img slide" where
  "add_domain_scores_chart R slide payload =
     (case create_domain_scores_table R payload of
        Inl e \<Rightarrow> Inl e
      | Inr img \<Rightarrow> Inr (add_picture (Drawn img) (2, 5 / 2, 9, 4) slide))"

definition add_detailed_reports_to_slide6 ::
  "'img renderers \<Rightarrow> 'img slide \<Rightarrow> payload \<Rightarrow> error + 'img slide" where
  "add_detailed_reports_to_slide6 R slide payload =
     (case create_domain_subdomain_report R payload of
        Inl e \<Rightarrow> Inl e
      | Inr table_img \<Rightarrow>
          (let left = (if (1 / 10 - 1 / 2 :: rat) < 0 then 1 / 20 else 1 / 10 - 1 / 2);
               slide1 = add_picture (Drawn table_img) (left, 16 / 5 - 1 / 2, 46 / 5, 14 / 5) slide
           in case create_spider_chart_report R payload of
                Inl e \<Rightarrow> Inl e
              | Inr spider_img \<Rightarrow>
                  Inr (add_picture (Drawn spider_img) (6 + 2 + 1 / 2, 16 / 5 - 7 / 10, 4, 3) slide1)))"

definition add_concrete_recommendations_to_slide7 ::
  "'img slide \<Rightarrow> payload \<Rightarrow> error + 'img slide" where
  "add_concrete_recommendations_to_slide7 slide payload =
     (case create_concrete_recommendations_report payload of
        Inl e \<Rightarrow> Inl e
      | Inr img \<Rightarrow> Inr (add_picture (Report img) (1, 27 / 10, 21 / 2, 18 / 5) slide))"

definition add_support_overview_to_slide8 ::
  "'img slide \<Rightarrow> payload \<Rightarrow> error + 'img slide" where
  "add_support_overview_to_slide8 slide payload =
     (case create_support_overview_report payload of
        Inl e \<Rightarrow> Inl e
      | Inr img \<Rightarrow> Inr (add_picture (Report img) (1, 27 / 10, 21 / 2, 18 / 5) slide))"

text \<open>\<open>add_charts_to_slides\<close>: five guarded steps, one after the other.\<close>

definition add_charts_to_slides ::
  "'img renderers \<Rightarrow> 'img presentation \<Rightarrow> payload \<Rightarrow> error + 'img presentation" where
  "add_charts_to_slides R presentation payload =
     (case (if length presentation > 3
            then at_slide 3 (\<lambda>slide. add_score_breakdown_to_slide4 R slide payload) presentation
            else Inr presentation) of
        Inl e \<Rightarrow> Inl e
      | Inr p1 \<Rightarrow>
     (case (if length p1 > 4
            then at_slide 4 (\<lambda>slide. add_domain_scores_chart R slide payload) p1
            else Inr p1) of
        Inl e \<Rightarrow> Inl e
      | Inr p2 \<Rightarrow>
     (case (if length p2 > 5
            then at_slide 5 (\<lambda>slide. add_detailed_reports_to_slide6 R slide payload) p2
            else Inr p2) of
        Inl e \<Rightarrow> Inl e
      | Inr p3 \<Rightarrow>
     (case (if length p3 > 6
            then at_slide 6 (\<lambda>slide. add_concrete_recommendations_to_slide7 slide payload) p3
            else Inr p3) of
        Inl e \<Rightarrow> Inl e
      | Inr p4 \<Rightarrow>
     (if length p4 > 7
      then at_slide 7 (\<lambda>slide. add_support_overview_to_slide8 slide payload) p4
      else Inr p4)))))"

text \<open>The target slides of \<open>add_charts_to_slides\<close> with what is done on each, in order.\<close>

definition chart_slides ::
  "'img renderers \<Rightarrow> payload \<Rightarrow> (nat \<times> ('img slide \<Rightarrow> error + 'img slide)) list" where
  "chart_slides R payload =
     [(3, \<lambda>slide. add_score_breakdown_to_slide4 R slide payload),
      (4, \<lambda>slide. add_domain_scores_chart R slide payload),
      (5, \<lambda>slide. add_detailed_reports_to_slide6 R slide payload),
      (6, \<lambda>slide. add_concrete_recommendations_to_slide7 slide payload),
      (7, \<lambda>slide. add_support_overview_to_slide8 slide payload)]"

text \<open>Renderers that always raise, and renderers that always give the image 0.\<close>

definition failing_renderers :: "nat renderers" where
  "failing_renderers =
     \<lparr>create_score_breakdown_chart = (\<lambda>p. Inl ValueError),
      create_domain_scores_table = (\<lambda>p. Inl ValueError),
      create_domain_subdomain_report = (\<lambda>p. Inl ValueError),
      create_spider_chart_report = (\<lambda>p. Inl ValueError)\<rparr>"

definition plain_renderers :: "nat renderers" where
  "plain_renderers =
     \<lparr>create_score_breakdown_chart = (\<lambda>p. Inr 0),
      create_domain_scores_table = (\<lambda>p. Inr 0),
      create_domain_subdomain_report = (\<lambda>p. Inr 0),
      create_spider_chart_report = (\<lambda>p. Inr 0)\<rparr>"

text \<open>The score of a numeric field where \<open>int\<close> can read it.\<close>

definition score_or_zero :: "payload \<Rightarrow> ustring \<Rightarrow> int" where
  "score_or_zero payload key = (case numeric_score payload key of Inl e \<Rightarrow> 0 | Inr n \<Rightarrow> n)"

section \<open>The subdomains and some payloads\<close>

definition subdomain_names :: "ustring list" where
  "subdomain_names = map snd field_mapping"

definition rec_congratulations :: ustring where
  "rec_congratulations =
     u ''Gefeliciteerd! Alle scores zijn hoger dan 3.'' @ [10] @
     u ''Geen concrete aanbevelingen nodig.''"

definition sup_congratulations :: ustring where
  "sup_congratulations =
     u ''Gefeliciteerd! Alle scores zijn hoger dan 3.'' @ [10] @
     u ''Geen ondersteuning nodig.''"

text \<open>The payload of the end-to-end scenario: \<open>Governance_Q1_Numeric\<close> is 1, the other seven are 5.\<close>

definition payload_one_low :: payload where
  "payload_one_low = map_of
     [(u ''Governance_Q1_Numeric'', PInt 1),
      (u ''Governance_Q2_Numeric'', PInt 5),
      (u ''Structuur_Q1_Numeric'', PInt 5),
      (u ''Structuur_Q2_Numeric'', PInt 5),
      (u ''Proces_Q1_Numeric'', PInt 5),
      (u ''Proces_Q2_Numeric'', PInt 5),
      (u ''Uitkomsten_en_sturing_Q1_Numeric'', PInt 5),
      (u ''Uitkomsten_en_sturing_Q2_Numeric'', PInt 5)]"

text \<open>All eight numeric fields are 5.\<close>

definition payload_all_five :: payload where
  "payload_all_five = map_of
     [(u ''Governance_Q1_Numeric'', PInt 5),
      (u ''Governance_Q2_Numeric'', PInt 5),
      (u ''Structuur_Q1_Numeric'', PInt 5),
      (u ''Structuur_Q2_Numeric'', PInt 5),
      (u ''Proces_Q1_Numeric'', PInt 5),
      (u ''Proces_Q2_Numeric'', PInt 5),
      (u ''Uitkomsten_en_sturing_Q1_Numeric'', PInt 5),
      (u ''Uitkomsten_en_sturing_Q2_Numeric'', PInt 5)]"

text \<open>One subdomain in both encodings: the text says 2, the numeric field says 4.\<close>

definition payload_both_encodings :: payload where
  "payload_both_encodings = map_of
     [(u ''Governance_Q1'', PStr (u ''2. In ontwikkeling'')),
      (u ''Governance_Q1_Numeric'', PInt 4)]"

text \<open>A text field whose part before the first dot is not a number.\<close>

definition payload_unparseable :: payload where
  "payload_unparseable = map_of [(u ''Governance_Q1'', PStr (u ''n.v.t.''))]"

definition payload_no_answer :: payload where
  "payload_no_answer = map_of [(u ''Proces_Q2'', PStr (u ''geen antwoord''))]"

text \<open>Scores 1, 2 and 3 and five absent fields.\<close>

definition payload_two_low :: payload where
  "payload_two_low = map_of
     [(u ''Governance_Q1_Numeric'', PInt 1),
      (u ''Structuur_Q2_Numeric'', PInt 2),
      (u ''Proces_Q1_Numeric'', PInt 3)]"

text \<open>A deck of two slides, a deck of five empty slides, and a payload with an organization.\<close>

definition two_slides :: "nat presentation" where
  "two_slides = [[PlainText (u ''{{organisatie}}'')], [OtherShape]]"

definition five_slides :: "nat presentation" where
  "five_slides = [[], [], [], [], []]"

definition seven_slides :: "nat presentation" where
  "seven_slides = [[], [], [], [], [], [], []]"

definition payload_org :: payload where
  "payload_org = map_of [(u ''Organization'', PStr (u ''Acme''))]"

section \<open>Basic facts\<close>

lemma u_eq_iff [simp]: "u a = u b \<longleftrightarrow> a = b"
  by (simp add: u_def inj_map_eq_map inj_of_char)

lemma length_u [simp]: "length (u s) = length s"
  by (simp add: u_def)

section \<open>Maturity phase classification\<close>

lemma less5: "(i::nat) < 5 \<longleftrightarrow> i = 0 \<or> i = 1 \<or> i = 2 \<or> i = 3 \<or> i = 4"
  by auto

lemma in_bucket_simps:
  "in_bucket 0 t \<longleftrightarrow> 0 \<le> t \<and> t \<le> 14"
  "in_bucket 1 t \<longleftrightarrow> 15 \<le> t \<and> t \<le> 22"
  "in_bucket (Suc 0) t \<longleftrightarrow> 15 \<le> t \<and> t \<le> 22"
  "in_bucket 2 t \<longleftrightarrow> 23 \<le> t \<and> t \<le> 30"
  "in_bucket 3 t \<longleftrightarrow> 31 \<le> t \<and> t \<le> 36"
  "in_bucket 4 t \<longleftrightarrow> 37 \<le> t \<and> t \<le> 40"
  by (simp_all add: in_bucket_def bucket_bounds_def)

lemma bucket_unique:
  assumes "0 \<le> T" "T \<le> 40"
  shows "\<exists>!i. i < 5 \<and> in_bucket i T"
proof -
  consider "T \<le> 14" | "15 \<le> T" "T \<le> 22" | "23 \<le> T" "T \<le> 30" | "31 \<le> T" "T \<le> 36" | "37 \<le> T"
    by linarith
  then show ?thesis
  proof cases
    case 1
    then show ?thesis using assms by (intro ex1I [of _ 0]) (auto simp: less5 in_bucket_simps)
  next
    case 2
    then show ?thesis using assms by (intro ex1I [of _ 1]) (auto simp: less5 in_bucket_simps)
  next
    case 3
    then show ?thesis using assms by (intro ex1I [of _ 2]) (auto simp: less5 in_bucket_simps)
  next
    case 4
    then show ?thesis using assms by (intro ex1I [of _ 3]) (auto simp: less5 in_bucket_simps)
  next
    case 5
    then show ?thesis using assms by (intro ex1I [of _ 4]) (auto simp: less5 in_bucket_simps)
  qed
qed

lemma buckets_contiguous:
  "fst (bucket_bounds ! 0) = 0 \<and> snd (bucket_bounds ! 4) = 40 \<and>
   (\<forall>i<4. fst (bucket_bounds ! Suc i) = snd (bucket_bounds ! i) + 1)"
proof -
  have "(i::nat) < 4 \<longleftrightarrow> i = 0 \<or> i = 1 \<or> i = 2 \<or> i = 3" for i
    by auto
  then show ?thesis
    by (auto simp: bucket_bounds_def)
qed

text \<open>
  C4. For every integer total T with 0 \<le> T \<le> 40 exactly one of the five buckets
  [0-14], [15-22], [23-30], [31-36], [37-40] contains T; \<open>get_transitiefase\<close> returns the
  name of that bucket and the chart's \<open>current_phase\<close> is its index; the five names are
  distinct; the buckets start at 0, end at 40 and each begins one above the end of the
  one before. In particular 14 is Startfase, 15 and 22 are Aan de slag, 23 is Op de kaart
  and 40 is Voorloper.
\<close>

theorem classify_phase_buckets:
  assumes "0 \<le> T" "T \<le> 40"
  shows "(\<exists>!i. i < 5 \<and> in_bucket i T) \<and>
         (\<forall>i<5. in_bucket i T \<longrightarrow>
            get_transitiefase (PInt T) = Inr (phase_names ! i) \<and> current_phase T = i) \<and>
         distinct phase_names \<and> length phase_names = 5 \<and>
         fst (bucket_bounds ! 0) = 0 \<and> snd (bucket_bounds ! 4) = 40 \<and>
         (\<forall>i<4. fst (bucket_bounds ! Suc i) = snd (bucket_bounds ! i) + 1) \<and>
         get_transitiefase (PInt 14) = Inr (u ''Startfase'') \<and>
         get_transitiefase (PInt 15) = Inr (u ''Aan de slag'') \<and>
         get_transitiefase (PInt 22) = Inr (u ''Aan de slag'') \<and>
         get_transitiefase (PInt 23) = Inr (u ''Op de kaart'') \<and>
         get_transitiefase (PInt 40) = Inr (u ''Voorloper'')"
proof -
  have cls: "\<forall>i<5. in_bucket i T \<longrightarrow>
            get_transitiefase (PInt T) = Inr (phase_names ! i) \<and> current_phase T = i"
    by (auto simp: less5 in_bucket_simps get_transitiefase_def phase_names_def current_phase_def)
  have d: "distinct phase_names \<and> length phase_names = 5"
    by (simp add: phase_names_def)
  have pts: "get_transitiefase (PInt 14) = Inr (u ''Startfase'') \<and>
         get_transitiefase (PInt 15) = Inr (u ''Aan de slag'') \<and>
         get_transitiefase (PInt 22) = Inr (u ''Aan de slag'') \<and>
         get_transitiefase (PInt 23) = Inr (u ''Op de kaart'') \<and>
         get_transitiefase (PInt 40) = Inr (u ''Voorloper'')"
    by (simp add: get_transitiefase_def)
  from bucket_unique [OF assms] cls d pts buckets_contiguous show ?thesis
    by blast
qed

theorem classify_phase_buckets_witness:
  "in_bucket 3 36 \<and> get_transitiefase (PInt 36) = Inr (u ''In control'') \<and> current_phase 36 = 3"
proof -
  have b: "in_bucket 3 36"
    by (simp add: in_bucket_simps)
  have "\<forall>i<5. in_bucket i 36 \<longrightarrow>
            get_transitiefase (PInt 36) = Inr (phase_names ! i) \<and> current_phase 36 = i"
    using classify_phase_buckets [of 36] by simp
  from this [rule_format, of 3] b show ?thesis
    by (simp add: phase_names_def)
qed

section \<open>Score extraction: errors\<close>

lemma py_split_not_Nil [simp]: "py_split c s \<noteq> []"
  by (induction s) (auto split: list.splits)

lemma py_int_str_error: "py_int_str s = Inl e \<Longrightarrow> e = ValueError"
  by (auto simp: py_int_str_def Let_def split: if_splits)

lemma py_int_error: "py_int v = Inl e \<Longrightarrow> e = ValueError"
  by (cases v) (auto dest: py_int_str_error)

lemma leading_int_error: "leading_int s = Inl e \<Longrightarrow> e = ValueError"
  by (auto simp: leading_int_def split: list.splits dest: py_int_str_error)

lemma rec_text_step_error: "rec_text_step p fs sc = Inl e \<Longrightarrow> e = ValueError"
  by (auto simp: rec_text_step_def split: option.splits sum.splits if_splits
      dest: leading_int_error py_int_error)

lemma sup_text_step_error: "sup_text_step p fs sc = Inl e \<Longrightarrow> e = ValueError"
  by (auto simp: sup_text_step_def split: option.splits sum.splits if_splits
      dest: leading_int_error)

lemma numeric_step_error: "numeric_step p fs sc = Inl e \<Longrightarrow> e = ValueError"
  by (auto simp: numeric_step_def split: option.splits sum.splits dest: py_int_error)

lemma for_each_error:
  "for_each body xs s = Inl e \<Longrightarrow> \<exists>x\<in>set xs. \<exists>s'. body x s' = Inl e"
  by (induction xs arbitrary: s) (auto split: sum.splits)

lemma for_each_fails:
  "x \<in> set xs \<Longrightarrow> (\<And>s. \<exists>e. body x s = Inl e) \<Longrightarrow> \<exists>e. for_each body xs s = Inl e"
proof (induction xs arbitrary: s)
  case Nil
  then show ?case by simp
next
  case (Cons y ys)
  show ?case
  proof (cases "body y s")
    case (Inl e)
    then show ?thesis by simp
  next
    case (Inr s')
    show ?thesis
    proof (cases "x = y")
      case True
      with Cons.prems(2) [of s] Inr show ?thesis by simp
    next
      case False
      with Cons.prems(1) have "x \<in> set ys" by simp
      from Cons.IH [OF this Cons.prems(2)] Inr show ?thesis by simp
    qed
  qed
qed

lemma recommendation_scores_error: "recommendation_scores p = Inl e \<Longrightarrow> e = ValueError"
  by (auto simp: recommendation_scores_def split: sum.splits
      dest!: for_each_error dest: rec_text_step_error numeric_step_error)

lemma support_scores_error: "support_scores p = Inl e \<Longrightarrow> e = ValueError"
  by (auto simp: support_scores_def split: sum.splits
      dest!: for_each_error dest: sup_text_step_error numeric_step_error)

lemma unparseable_step:
  assumes "p (fst fs) = Some (PStr t)" "py_strip t \<noteq> []" "leading_int t = Inl e"
  shows "rec_text_step p fs sc = Inl e" "sup_text_step p fs sc = Inl e"
  using assms by (simp_all add: rec_text_step_def sup_text_step_def)

section \<open>The advice tables and the fallback\<close>

lemma u_Nil [simp]: "u s = [] \<longleftrightarrow> s = []" "[] = u s \<longleftrightarrow> s = []"
  by (auto simp: u_def)

lemma advice_key_list:
  "map fst advice_mapping = concat (map (\<lambda>sd. [(sd, 1), (sd, 2), (sd, 3)]) subdomain_names)"
  by (simp add: advice_mapping_def field_mapping_def subdomain_names_def)

lemma support_key_list:
  "map fst support_mapping = concat (map (\<lambda>sd. [(sd, 1), (sd, 2), (sd, 3)]) subdomain_names)"
  by (simp add: support_mapping_def field_mapping_def subdomain_names_def)

lemma advice_entries_nonempty:
  "\<forall>e\<in>snd ` set advice_mapping. advice e \<noteq> [] \<and> support e \<noteq> [] \<and> support_type e \<noteq> []"
  by (simp add: advice_mapping_def)

lemma support_entries_nonempty:
  "\<forall>e\<in>snd ` set support_mapping. sup_support_type e \<noteq> [] \<and> description e \<noteq> []"
  by (simp add: support_mapping_def)

lemma key_in_list:
  assumes "sd \<in> set names" "sc = 1 \<or> sc = 2 \<or> sc = 3"
  shows "(sd, sc) \<in> set (concat (map (\<lambda>sd. [(sd, 1), (sd, 2), (sd, 3::int)]) names))"
  using assms by auto

lemma key_in_list_iff:
  "(sd, sc) \<in> set (concat (map (\<lambda>sd. [(sd, 1), (sd, 2), (sd, 3::int)]) names))
   \<longleftrightarrow> sd \<in> set names \<and> (sc = 1 \<or> sc = 2 \<or> sc = 3)"
  by auto

lemma advice_lookup:
  assumes "sd \<in> set subdomain_names" "sc = 1 \<or> sc = 2 \<or> sc = 3"
  shows "\<exists>e. map_of advice_mapping (sd, sc) = Some e \<and>
             advice e \<noteq> [] \<and> support e \<noteq> [] \<and> support_type e \<noteq> []"
proof -
  have "(sd, sc) \<in> fst ` set advice_mapping"
    using assms key_in_list_iff [of sd sc subdomain_names] advice_key_list
    by (metis set_map)
  then obtain e where e: "map_of advice_mapping (sd, sc) = Some e"
    by (metis map_of_eq_None_iff not_Some_eq)
  then have "e \<in> snd ` set advice_mapping"
    by (force dest: map_of_SomeD)
  with advice_entries_nonempty e show ?thesis by blast
qed

lemma support_lookup:
  assumes "sd \<in> set subdomain_names" "sc = 1 \<or> sc = 2 \<or> sc = 3"
  shows "\<exists>e. map_of support_mapping (sd, sc) = Some e \<and>
             sup_support_type e \<noteq> [] \<and> description e \<noteq> []"
proof -
  have "(sd, sc) \<in> fst ` set support_mapping"
    using assms key_in_list_iff [of sd sc subdomain_names] support_key_list
    by (metis set_map)
  then obtain e where e: "map_of support_mapping (sd, sc) = Some e"
    by (metis map_of_eq_None_iff not_Some_eq)
  then have "e \<in> snd ` set support_mapping"
    by (force dest: map_of_SomeD)
  with support_entries_nonempty e show ?thesis by blast
qed

lemma advice_none:
  "map_of advice_mapping (sd, sc) = None \<longleftrightarrow> \<not> (sd \<in> set subdomain_names \<and> (sc = 1 \<or> sc = 2 \<or> sc = 3))"
  using key_in_list_iff [of sd sc subdomain_names] advice_key_list
  by (metis map_of_eq_None_iff set_map)

lemma support_none:
  "map_of support_mapping (sd, sc) = None \<longleftrightarrow> \<not> (sd \<in> set subdomain_names \<and> (sc = 1 \<or> sc = 2 \<or> sc = 3))"
  using key_in_list_iff [of sd sc subdomain_names] support_key_list
  by (metis map_of_eq_None_iff set_map)

lemma collect_recommendations_none:
  "\<forall>(sd, sc)\<in>set scores. map_of advice_mapping (sd, sc) = None
   \<Longrightarrow> collect_recommendations p scores acc = acc"
  by (induction scores arbitrary: acc) auto

lemma collect_support_none:
  "\<forall>(sd, sc)\<in>set scores. map_of support_mapping (sd, sc) = None
   \<Longrightarrow> collect_support scores acc = acc"
  by (induction scores arbitrary: acc) auto

lemma fallback_recommendations:
  assumes "recommendation_scores payload = Inr scores"
    and "\<forall>(sd, sc)\<in>set scores. sc = 4 \<or> sc = 5 \<or> sc = 0"
  shows "create_concrete_recommendations_report payload = Inr (Message rec_congratulations)"
proof -
  have "\<forall>(sd, sc)\<in>set scores. map_of advice_mapping (sd, sc) = None"
    using assms(2) by (auto simp: advice_none)
  then have "collect_recommendations payload scores [] = []"
    by (rule collect_recommendations_none)
  with assms(1) show ?thesis
    by (simp add: create_concrete_recommendations_report_def rec_congratulations_def)
qed

lemma fallback_support:
  assumes "support_scores payload = Inr scores"
    and "\<forall>(sd, sc)\<in>set scores. sc = 4 \<or> sc = 5 \<or> sc = 0"
  shows "create_support_overview_report payload = Inr (Message sup_congratulations)"
proof -
  have "\<forall>(sd, sc)\<in>set scores. map_of support_mapping (sd, sc) = None"
    using assms(2) by (auto simp: support_none)
  then have "collect_support scores [] = []"
    by (rule collect_support_none)
  with assms(1) show ?thesis
    by (simp add: create_support_overview_report_def sup_congratulations_def)
qed



section \<open>The renderers on the example payloads\<close>

lemmas payload_eval =
  recommendation_scores_def support_scores_def field_mapping_def rec_numeric_fields_def
  sup_numeric_fields_def rec_text_step_def sup_text_step_def numeric_step_def patientgericht_def

lemma str_digit: "py_str_int 1 = u ''1''" "py_str_int 2 = u ''2''"
  by (simp_all add: py_str_int_def nat_digits.simps u_def)

lemma scores_one_low:
  "recommendation_scores payload_one_low =
     Inr [(u ''Regionale samenwerking'', 5), (u ''Tools en platforms'', 5),
          (u ''Outcomegericht werken'', 5), (u ''Monitoring en besluitvorming'', 5)]"
  by (simp add: payload_eval payload_one_low_def)

lemma support_scores_one_low:
  "support_scores payload_one_low =
     Inr [(u ''Visie op passende zorg'', 1), (u ''Leiderschap en eigenaarschap'', 5),
          (u ''Regionale samenwerking'', 5), (u ''Tools en platforms'', 5),
          (patientgericht, 5), (u ''Leren en verbeteren'', 5),
          (u ''Outcomegericht werken'', 5), (u ''Monitoring en besluitvorming'', 5)]"
  by (simp add: payload_eval payload_one_low_def)

lemma wrap_startsessie:
  "wrap_text 60 (u ''Startsessie of training: visie, netwerk of dashboard opzetten.'') =
   [u ''Startsessie of training: visie, netwerk of dashboard'', u ''opzetten.'']"
  by (simp add: wrap_text_def u_def)

lemma support_report_one_low:
  "create_support_overview_report payload_one_low =
     Inr (Table [u ''Subdomain'', u ''Support Type'', u ''Description'', u ''Score'']
            [[[u ''Visie op passende zorg''], [u ''Training''],
              [u ''Startsessie of training: visie, netwerk of dashboard'', u ''opzetten.''],
              [u ''1'']]])"
  by (simp add: create_support_overview_report_def support_scores_one_low support_mapping_def
      patientgericht_def row_cells_def cell_lines_def wrap_startsessie str_digit)

text \<open>
  C1. The claim: for the payload with \<open>Governance_Q1_Numeric\<close> = 1 and the other seven
  numeric fields 5, the recommendations table has exactly one data row, for
  "Visie op passende zorg" with score 1. The code: the recommendations renderer reads only
  the four numeric fields of Structuur and Uitkomsten, so it extracts four scores of 5 and
  draws the congratulatory message with no row; the support-overview renderer, which reads
  all eight numeric fields, draws the one row for "Visie op passende zorg" with score 1.
  No key of \<open>field_mapping\<close> ends in \<open>_Numeric\<close>, so the \<open>elif\<close> branch of the first
  loop never runs.
\<close>

theorem one_low_score_yields_no_row:
  "recommendation_scores payload_one_low =
     Inr [(u ''Regionale samenwerking'', 5), (u ''Tools en platforms'', 5),
          (u ''Outcomegericht werken'', 5), (u ''Monitoring en besluitvorming'', 5)] \<and>
   create_concrete_recommendations_report payload_one_low = Inr (Message rec_congratulations) \<and>
   create_support_overview_report payload_one_low =
     Inr (Table [u ''Subdomain'', u ''Support Type'', u ''Description'', u ''Score'']
            [[[u ''Visie op passende zorg''], [u ''Training''],
              [u ''Startsessie of training: visie, netwerk of dashboard'', u ''opzetten.''],
              [u ''1'']]]) \<and>
   filter (\<lambda>fs. endswith (fst fs) (u ''_Numeric'')) field_mapping = []"
proof -
  have "filter (\<lambda>fs. endswith (fst fs) (u ''_Numeric'')) field_mapping = []"
    by (simp add: field_mapping_def endswith_def u_def)
  with fallback_recommendations [OF scores_one_low] scores_one_low support_report_one_low
  show ?thesis
    by simp
qed

lemma leading_int_2: "leading_int (u ''2. In ontwikkeling'') = Inr 2"
  by (simp add: leading_int_def u_def py_int_str_def py_strip_def py_isspace_def is_digit_def)

lemma nonblank_2:
  "nonblank_text (PStr (u ''2. In ontwikkeling'')) = Some (u ''2. In ontwikkeling'')"
  by (simp add: u_def py_strip_def py_isspace_def)

lemma scores_both_rec:
  "recommendation_scores payload_both_encodings = Inr [(u ''Visie op passende zorg'', 2)]"
  by (simp add: payload_eval payload_both_encodings_def leading_int_2 nonblank_2
      del: nonblank_text.simps)

lemma scores_both_sup:
  "support_scores payload_both_encodings = Inr [(u ''Visie op passende zorg'', 4)]"
  by (simp add: payload_eval payload_both_encodings_def leading_int_2 nonblank_2
      del: nonblank_text.simps)

lemma rec_report_both:
  "create_concrete_recommendations_report payload_both_encodings =
     Inr (Table [u ''Domain'', u ''Subdomain'', u ''Advice'', u ''Score'']
            [[[u ''Governance''], [u ''Visie op passende zorg''],
              [u (''Vertaal losse idee'' @ [CHR 0xEB] @ ''n naar een eerste''), u ''conceptvisie.''],
              [u ''2'']]])"
  apply (simp add: create_concrete_recommendations_report_def scores_both_rec advice_mapping_def
      domain_mapping_def patientgericht_def row_cells_def cell_lines_def str_digit)
  apply (simp add: wrap_text_def)
  apply (simp add: u_def)
  done

text \<open>
  C3. The claim: when a subdomain has both its free-text field and its \<open>_Numeric\<close>
  field, both table renderers filter on the numeric value. The code, for the payload with
  \<open>Governance_Q1\<close> = "2. In ontwikkeling" and \<open>Governance_Q1_Numeric\<close> = 4: the
  support-overview renderer uses 4 and draws the congratulatory message, but the
  recommendations renderer never reads \<open>Governance_Q1_Numeric\<close>, keeps the 2 of the text
  and draws a row with score 2.
\<close>

theorem text_score_wins_in_recommendations:
  "payload_both_encodings (u ''Governance_Q1'') = Some (PStr (u ''2. In ontwikkeling'')) \<and>
   payload_both_encodings (u ''Governance_Q1_Numeric'') = Some (PInt 4) \<and>
   recommendation_scores payload_both_encodings = Inr [(u ''Visie op passende zorg'', 2)] \<and>
   support_scores payload_both_encodings = Inr [(u ''Visie op passende zorg'', 4)] \<and>
   create_concrete_recommendations_report payload_both_encodings =
     Inr (Table [u ''Domain'', u ''Subdomain'', u ''Advice'', u ''Score'']
            [[[u ''Governance''], [u ''Visie op passende zorg''],
              [u (''Vertaal losse idee'' @ [CHR 0xEB] @ ''n naar een eerste''), u ''conceptvisie.''],
              [u ''2'']]]) \<and>
   create_support_overview_report payload_both_encodings = Inr (Message sup_congratulations)"
proof -
  have "create_support_overview_report payload_both_encodings = Inr (Message sup_congratulations)"
    using fallback_support [OF scores_both_sup] by simp
  then show ?thesis
    using scores_both_rec scores_both_sup rec_report_both
    by (simp add: payload_both_encodings_def)
qed

section \<open>Advice lookup and the congratulatory fallback\<close>

text \<open>
  C6. Both lookup tables have an entry with non-empty texts for every one of the eight
  subdomains at every score 1, 2 and 3, and no entry at score 4, 5 or 0 for any subdomain.
  Hence for every payload whose extracted scores are all 4, 5 or 0 the recommendations
  renderer and the support-overview renderer each return, without error, the
  congratulatory message and no table row.
\<close>

theorem advice_lookup_and_fallback:
  "(\<forall>sd\<in>set subdomain_names. \<forall>sc. sc = 1 \<or> sc = 2 \<or> sc = 3 \<longrightarrow>
      (\<exists>e. map_of advice_mapping (sd, sc) = Some e \<and>
           advice e \<noteq> [] \<and> support e \<noteq> [] \<and> support_type e \<noteq> []) \<and>
      (\<exists>e. map_of support_mapping (sd, sc) = Some e \<and>
           sup_support_type e \<noteq> [] \<and> description e \<noteq> [])) \<and>
   length subdomain_names = 8 \<and> distinct subdomain_names \<and>
   (\<forall>sd sc. sc = 4 \<or> sc = 5 \<or> sc = 0 \<longrightarrow>
      map_of advice_mapping (sd, sc) = None \<and> map_of support_mapping (sd, sc) = None) \<and>
   (\<forall>payload scores.
      recommendation_scores payload = Inr scores \<and>
      (\<forall>(sd, sc)\<in>set scores. sc = 4 \<or> sc = 5 \<or> sc = 0) \<longrightarrow>
      create_concrete_recommendations_report payload = Inr (Message rec_congratulations)) \<and>
   (\<forall>payload scores.
      support_scores payload = Inr scores \<and>
      (\<forall>(sd, sc)\<in>set scores. sc = 4 \<or> sc = 5 \<or> sc = 0) \<longrightarrow>
      create_support_overview_report payload = Inr (Message sup_congratulations))"
proof -
  have a: "\<forall>sd\<in>set subdomain_names. \<forall>sc. sc = 1 \<or> sc = 2 \<or> sc = 3 \<longrightarrow>
      (\<exists>e. map_of advice_mapping (sd, sc) = Some e \<and>
           advice e \<noteq> [] \<and> support e \<noteq> [] \<and> support_type e \<noteq> []) \<and>
      (\<exists>e. map_of support_mapping (sd, sc) = Some e \<and>
           sup_support_type e \<noteq> [] \<and> description e \<noteq> [])"
    using advice_lookup support_lookup by blast
  have b: "length subdomain_names = 8 \<and> distinct subdomain_names"
    by (simp add: subdomain_names_def field_mapping_def patientgericht_def)
  have c: "\<forall>sd sc. sc = 4 \<or> sc = 5 \<or> sc = 0 \<longrightarrow>
      map_of advice_mapping (sd, sc) = None \<and> map_of support_mapping (sd, sc) = None"
    by (auto simp: advice_none support_none)
  have d: "\<forall>payload scores.
      recommendation_scores payload = Inr scores \<and>
      (\<forall>(sd, sc)\<in>set scores. sc = 4 \<or> sc = 5 \<or> sc = 0) \<longrightarrow>
      create_concrete_recommendations_report payload = Inr (Message rec_congratulations)"
    using fallback_recommendations by blast
  have e: "\<forall>payload scores.
      support_scores payload = Inr scores \<and>
      (\<forall>(sd, sc)\<in>set scores. sc = 4 \<or> sc = 5 \<or> sc = 0) \<longrightarrow>
      create_support_overview_report payload = Inr (Message sup_congratulations)"
    using fallback_support by blast
  from a b c d e show ?thesis
    by blast
qed

lemma scores_all_five:
  "recommendation_scores payload_all_five =
     Inr [(u ''Regionale samenwerking'', 5), (u ''Tools en platforms'', 5),
          (u ''Outcomegericht werken'', 5), (u ''Monitoring en besluitvorming'', 5)]"
  "support_scores payload_all_five =
     Inr [(u ''Visie op passende zorg'', 5), (u ''Leiderschap en eigenaarschap'', 5),
          (u ''Regionale samenwerking'', 5), (u ''Tools en platforms'', 5),
          (patientgericht, 5), (u ''Leren en verbeteren'', 5),
          (u ''Outcomegericht werken'', 5), (u ''Monitoring en besluitvorming'', 5)]"
  by (simp_all add: payload_eval payload_all_five_def)

theorem advice_lookup_and_fallback_witness:
  "create_concrete_recommendations_report payload_all_five = Inr (Message rec_congratulations) \<and>
   create_support_overview_report payload_all_five = Inr (Message sup_congratulations) \<and>
   (\<exists>e. map_of advice_mapping (u ''Visie op passende zorg'', 1) = Some e \<and> advice e \<noteq> [])"
proof -
  note t = advice_lookup_and_fallback
  have r: "create_concrete_recommendations_report payload_all_five = Inr (Message rec_congratulations)"
    using t scores_all_five(1) by (fastforce simp del: u_eq_iff)
  have s: "create_support_overview_report payload_all_five = Inr (Message sup_congratulations)"
    using t scores_all_five(2) by (fastforce simp del: u_eq_iff)
  have "u ''Visie op passende zorg'' \<in> set subdomain_names"
    by (simp add: subdomain_names_def field_mapping_def)
  then have "\<exists>e. map_of advice_mapping (u ''Visie op passende zorg'', 1) = Some e \<and> advice e \<noteq> []"
    using t by blast
  with r s show ?thesis
    by blast
qed

section \<open>Word wrapping\<close>

lemma in_concat_map: "l \<in> set (concat (map f xs)) \<longleftrightarrow> (\<exists>x\<in>set xs. l \<in> set (f x))"
  by auto

lemma in_map: "l \<in> set (map g xs) \<longleftrightarrow> (\<exists>x\<in>set xs. l = g x)"
  by auto

lemma bex_upt_pairs:
  "(\<exists>j\<in>{0..<Suc n}. \<exists>i\<in>{0..<j}. P i j) \<longleftrightarrow> (\<exists>i j. i < j \<and> j \<le> n \<and> P i j)"
  unfolding Bex_def atLeastLessThan_iff less_Suc_eq_le by blast

lemma in_word_slices:
  "l \<in> set (word_slices ws) \<longleftrightarrow>
   (\<exists>i j. i < j \<and> j \<le> length ws \<and> l = py_join [32] (take (j - i) (drop i ws)))"
  unfolding word_slices_def in_concat_map in_map set_upt
  by (rule bex_upt_pairs)

lemma py_join_snoc: "xs \<noteq> [] \<Longrightarrow> py_join sep (xs @ [w]) = py_join sep xs @ sep @ w"
  by (induction sep xs rule: py_join.induct) auto

lemma py_join_Cons_Cons: "py_join sep ((x # w) # ws) = x # py_join sep (w # ws)"
  by (cases ws) auto

lemma py_join_split: "py_join [c] (py_split c s) = s"
proof (induction s)
  case Nil
  show ?case by simp
next
  case (Cons x xs)
  obtain w ws where sp: "py_split c xs = w # ws"
    by (cases "py_split c xs") auto
  with Cons show ?case
    by (auto simp: py_join_Cons_Cons)
qed

lemma wrap_loop_bound:
  assumes "\<forall>l\<in>set wrapped. length l \<le> limit \<or> (limit < length l \<and> l \<in> S)"
    and "length current \<le> limit \<or> (limit < length current \<and> current \<in> S)"
    and "set words \<subseteq> S"
  shows "\<forall>l\<in>set (wrap_loop limit words current wrapped).
           length l \<le> limit \<or> (limit < length l \<and> l \<in> S)"
  using assms
proof (induction words arbitrary: current wrapped)
  case Nil
  then show ?case by auto
next
  case (Cons w ws)
  let ?test = "if current \<noteq> [] then current @ [32] @ w else w"
  show ?case
  proof (cases "length ?test \<le> limit")
    case True
    have "\<forall>l\<in>set (wrap_loop limit ws ?test wrapped).
          length l \<le> limit \<or> (limit < length l \<and> l \<in> S)"
      using Cons.prems True by (intro Cons.IH) auto
    with True show ?thesis by (simp add: Let_def)
  next
    case False
    let ?wr = "if current \<noteq> [] then wrapped @ [current] else wrapped"
    have "\<forall>l\<in>set (wrap_loop limit ws w ?wr).
          length l \<le> limit \<or> (limit < length l \<and> l \<in> S)"
      using Cons.prems by (intro Cons.IH) auto
    with False show ?thesis by (simp add: Let_def)
  qed
qed

lemma slice_of_prefix:
  assumes "i < length pre"
  shows "py_join [32] (drop i pre) \<in> set (word_slices (pre @ rest))"
  unfolding in_word_slices
  using assms by (intro exI [of _ i] exI [of _ "length pre"]) simp

lemma wrap_loop_slices:
  assumes "\<forall>l\<in>set wrapped. l \<in> set (word_slices (pre @ rest))"
    and "current = [] \<or> (\<exists>i<length pre. current = py_join [32] (drop i pre))"
  shows "\<forall>l\<in>set (wrap_loop limit rest current wrapped). l \<in> set (word_slices (pre @ rest))"
  using assms
proof (induction rest arbitrary: pre current wrapped)
  case Nil
  then show ?case
    using slice_of_prefix [of _ pre "[]"] by auto
next
  case (Cons w ws)
  let ?test = "if current \<noteq> [] then current @ [32] @ w else w"
  let ?wr = "if current \<noteq> [] then wrapped @ [current] else wrapped"
  have all: "pre @ w # ws = (pre @ [w]) @ ws" by simp
  have wr: "\<forall>l\<in>set ?wr. l \<in> set (word_slices ((pre @ [w]) @ ws))"
    using Cons.prems slice_of_prefix [of _ pre "w # ws"] by auto
  have wr0: "\<forall>l\<in>set wrapped. l \<in> set (word_slices ((pre @ [w]) @ ws))"
    using Cons.prems by simp
  have w: "w = [] \<or> (\<exists>i<length (pre @ [w]). w = py_join [32] (drop i (pre @ [w])))"
    by (intro disjI2 exI [of _ "length pre"]) simp
  have test: "?test = [] \<or> (\<exists>i<length (pre @ [w]). ?test = py_join [32] (drop i (pre @ [w])))"
  proof (cases "current = []")
    case True
    with w show ?thesis by simp
  next
    case False
    with Cons.prems(2) obtain i where i: "i < length pre" "current = py_join [32] (drop i pre)"
      by blast
    then have "current @ [32] @ w = py_join [32] (drop i (pre @ [w]))"
      by (simp add: py_join_snoc)
    with False i(1) show ?thesis
      by (intro disjI2 exI [of _ i]) simp
  qed
  show ?case
  proof (cases "length ?test \<le> limit")
    case True
    from Cons.IH [OF wr0 test] True show ?thesis
      unfolding all by (simp add: Let_def)
  next
    case False
    from Cons.IH [OF wr w] False show ?thesis
      unfolding all by (simp add: Let_def)
  qed
qed

text \<open>
  C7. Every line drawn in a wrapped cell (column 2, for any limit, so for the advice
  column with 45 and the description column with 60) is at most the limit long, or is a
  single word of the text that is itself longer than the limit; and every line is a run
  of consecutive words of the text joined by single spaces.
\<close>

theorem wrapped_lines_within_limit:
  assumes "line \<in> set (cell_lines limit 2 data)"
  shows "(length line \<le> limit \<or> (limit < length line \<and> line \<in> set (py_split 32 data))) \<and>
         line \<in> set (word_slices (py_split 32 data))"
proof (cases "length data > limit")
  case True
  then have l: "line \<in> set (wrap_loop limit (py_split 32 data) [] [])"
    using assms by (simp add: cell_lines_def wrap_text_def)
  have "\<forall>l\<in>set (wrap_loop limit (py_split 32 data) [] []).
          length l \<le> limit \<or> (limit < length l \<and> l \<in> set (py_split 32 data))"
    by (rule wrap_loop_bound) auto
  moreover have "\<forall>l\<in>set (wrap_loop limit (py_split 32 data) [] []).
          l \<in> set (word_slices ([] @ py_split 32 data))"
    by (rule wrap_loop_slices) auto
  ultimately show ?thesis using l by auto
next
  case False
  then have l: "line = data"
    using assms by (simp add: cell_lines_def)
  have "data \<in> set (word_slices (py_split 32 data))"
    unfolding in_word_slices
    by (intro exI [of _ 0] exI [of _ "length (py_split 32 data)"]) (simp add: py_join_split)
  with l False show ?thesis by simp
qed


theorem wrapped_lines_within_limit_witness:
  "u ''stakeholders.'' \<in>
     set (cell_lines 45 2 (u ''Faciliteer een visie- en inspiratiesessie met stakeholders.'')) \<and>
   length (u ''stakeholders.'') \<le> 45 \<and>
   u ''stakeholders.'' \<in>
     set (word_slices (py_split 32 (u ''Faciliteer een visie- en inspiratiesessie met stakeholders.'')))"
proof -
  have "cell_lines 45 2 (u ''Faciliteer een visie- en inspiratiesessie met stakeholders.'') =
        [u ''Faciliteer een visie- en inspiratiesessie met'', u ''stakeholders.'']"
    apply (simp add: cell_lines_def wrap_text_def)
    apply (simp add: u_def)
    done
  then have "u ''stakeholders.'' \<in>
     set (cell_lines 45 2 (u ''Faciliteer een visie- en inspiratiesessie met stakeholders.''))"
    by simp
  from this wrapped_lines_within_limit [OF this] show ?thesis
    by simp
qed

section \<open>Text cleaning is not idempotent\<close>

lemmas clean_eval =
  clean_text_def clean_replacements_def u_def py_replace.simps collapse_newlines.simps
  collapse_spaces.simps py_strip_def py_isspace_def

text \<open>
  C8. The claim: \<open>clean_text (clean_text s) = clean_text s\<close> for every text. The code:
  lines are stripped after the runs of newlines were collapsed, so the two blank lines of
  \<open>"a\n \n \nb"\<close> leave three newlines in a row, \<open>"a\n\n\nb"\<close>, which a second
  cleaning collapses to \<open>"a\n\nb"\<close>.
\<close>

theorem clean_text_twice_differs:
  "clean_text blank_lines_text = [97, 10, 10, 10, 98] \<and>
   clean_text (clean_text blank_lines_text) = [97, 10, 10, 98]"
proof -
  have 1: "clean_text blank_lines_text = [97, 10, 10, 10, 98]"
    by (simp add: clean_eval blank_lines_text_def)
  have 2: "clean_text [97, 10, 10, 10, 98] = [97, 10, 10, 98]"
    by (simp add: clean_eval)
  from 1 2 show ?thesis
    by simp
qed

section \<open>Star rating\<close>

lemma nat_digits_range: "c \<in> set (nat_digits n) \<Longrightarrow> 48 \<le> c \<and> c \<le> 57"
proof (induction n rule: nat_digits.induct)
  case (1 n)
  show ?case
  proof (cases "n < 10")
    case True
    with 1(2) show ?thesis by (simp add: nat_digits.simps)
  next
    case False
    with 1(2) have "c \<in> set (nat_digits (n div 10)) \<or> c = 48 + n mod 10"
      by (subst (asm) nat_digits.simps) auto
    with 1(1) False show ?thesis by auto
  qed
qed

lemma format_1f_no_glyph: "c \<in> set (format_1f x) \<Longrightarrow> \<not> is_glyph c"
  by (auto simp: format_1f_def Let_def is_glyph_def dest: nat_digits_range split: if_splits)

lemma suffix_no_glyph: "filter is_glyph (u '' ('' @ format_1f x @ u ''/5)'') = []"
proof -
  have "\<forall>c\<in>set (format_1f x). \<not> is_glyph c"
    using format_1f_no_glyph by blast
  then have "filter is_glyph (format_1f x) = []"
    by (simp add: filter_empty_conv)
  then show ?thesis
    by (simp add: u_def is_glyph_def)
qed

lemma py_repeat_single: "py_repeat [c] n = replicate (nat n) c"
  by (induction "nat n" arbitrary: n) (auto simp: py_repeat_def)

lemma replicate_small:
  "replicate 5 x = [x, x, x, x, x]" "replicate 3 x = [x, x, x]"
  by (simp_all add: numeral_eq_Suc)

text \<open>
  C5. For every score s with 0 \<le> s \<le> 10 the rating consists of floor(norm) filled
  circles for the normalized score norm = (s / 10) * 5, then one half circle exactly when
  the remainder norm - floor(norm), as the source computes it, is at least 0.5, then empty
  circles, then the score text; the circles are always five. The rating of 10 is five
  filled circles, of 0 five empty ones, and of 7 three filled, one half and one empty.
  This holds for every rounding with the properties of \<open>float_rounding\<close>.
\<close>

theorem star_rating_has_five_glyphs:
  assumes "float_rounding fl" "0 \<le> s" "s \<le> 10"
  shows "generate_star_rating fl s =
           replicate (nat \<lfloor>normalized fl s\<rfloor>) 9679 @
           (if fl (normalized fl s - of_int \<lfloor>normalized fl s\<rfloor>) \<ge> 1 / 2 then [9680] else []) @
           replicate (5 - nat \<lfloor>normalized fl s\<rfloor> -
                      (if fl (normalized fl s - of_int \<lfloor>normalized fl s\<rfloor>) \<ge> 1 / 2
                       then 1 else 0)) 9675 @
           u '' ('' @ format_1f (normalized fl s) @ u ''/5)'' \<and>
         length (filter is_glyph (generate_star_rating fl s)) = 5 \<and>
         generate_star_rating fl 10 = replicate 5 9679 @ u '' (5.0/5)'' \<and>
         generate_star_rating fl 0 = replicate 5 9675 @ u '' (0.0/5)'' \<and>
         generate_star_rating fl 7 = replicate 3 9679 @ [9680] @ [9675] @ u '' (3.5/5)''"
proof -
  from assms(1) have mono: "\<And>x y. x \<le> y \<Longrightarrow> fl x \<le> fl y"
    and fl0: "fl 0 = 0" and flh: "fl (1 / 2) = 1 / 2" and fl1: "fl 1 = 1" and fl5: "fl 5 = 5"
    and fl7: "fl (fl (7 / 10) * 5) = 7 / 2"
    by (simp_all add: float_rounding_def)
  define norm where "norm = normalized fl s"
  define full where "full = \<lfloor>norm\<rfloor>"
  define half :: int where "half = (if fl (norm - of_int full) \<ge> 1 / 2 then 1 else 0)"
  have q0: "0 \<le> fl (s / 10)"
    using mono [of 0 "s / 10"] assms(2) by (simp add: fl0)
  have q1: "fl (s / 10) \<le> 1"
    using mono [of "s / 10" 1] assms(3) by (simp add: fl1)
  have n0: "0 \<le> norm"
    using mono [of 0 "fl (s / 10) * 5"] q0 by (simp add: norm_def normalized_def fl0)
  have n5: "norm \<le> 5"
    using mono [of "fl (s / 10) * 5" 5] q1 by (simp add: norm_def normalized_def fl5)
  have f0: "0 \<le> full" and f5: "full \<le> 5"
    using n0 n5 by (simp_all add: full_def le_floor_iff floor_le_iff)
  have fh: "full + half \<le> 5"
  proof (cases "full = 5")
    case True
    then have "5 \<le> norm"
      using of_int_floor_le [of norm] by (simp add: full_def)
    with n5 have "norm = 5" by simp
    then show ?thesis by (simp add: half_def full_def fl0)
  next
    case False
    with f5 show ?thesis by (simp add: half_def)
  qed
  have tr: "py_trunc norm = full"
    using n0 by (simp add: py_trunc_def full_def)
  have eq: "generate_star_rating fl s =
           replicate (nat full) 9679 @ (if fl (norm - of_int full) \<ge> 1 / 2 then [9680] else []) @
           replicate (5 - nat full - (if fl (norm - of_int full) \<ge> 1 / 2 then 1 else 0)) 9675 @
           u '' ('' @ format_1f norm @ u ''/5)''"
    unfolding generate_star_rating_def norm_def [symmetric] Let_def tr
    using f0 fh
    by (auto simp: py_repeat_single half_def nat_diff_distrib)
  have cnt: "length (filter is_glyph (generate_star_rating fl s)) = 5"
    using f0 fh suffix_no_glyph [of norm]
    by (auto simp: eq is_glyph_def half_def simp del: append_assoc)
  have n10: "normalized fl 10 = 5" and n00: "normalized fl 0 = 0" and n7: "normalized fl 7 = 7 / 2"
    by (simp_all add: normalized_def fl0 fl1 fl5 fl7)
  have fl72: "\<lfloor>7 / 2 :: rat\<rfloor> = 3"
    by (simp add: floor_eq_iff)
  have r10: "generate_star_rating fl 10 = replicate 5 9679 @ u '' (5.0/5)''"
    by (simp add: generate_star_rating_def n10 fl0 py_trunc_def py_repeat_def format_1f_def
        round_half_even_def nat_digits.simps u_def replicate_small)
  have r0: "generate_star_rating fl 0 = replicate 5 9675 @ u '' (0.0/5)''"
    by (simp add: generate_star_rating_def n00 fl0 py_trunc_def py_repeat_def format_1f_def
        round_half_even_def nat_digits.simps u_def replicate_small)
  have r7: "generate_star_rating fl 7 = replicate 3 9679 @ [9680] @ [9675] @ u '' (3.5/5)''"
    by (simp add: generate_star_rating_def n7 flh py_trunc_def py_repeat_def format_1f_def
        round_half_even_def nat_digits.simps u_def fl72 Let_def replicate_small)
  from eq cnt r10 r0 r7 show ?thesis
    unfolding norm_def full_def by blast
qed

lemma exact_arithmetic: "float_rounding id"
  by (simp add: float_rounding_def)

theorem star_rating_has_five_glyphs_witness:
  "float_rounding id \<and> (0::rat) \<le> 3 \<and> (3::rat) \<le> 10 \<and>
   length (filter is_glyph (generate_star_rating id 3)) = 5"
proof -
  have h: "(0::rat) \<le> 3" "(3::rat) \<le> 10"
    by simp_all
  have "length (filter is_glyph (generate_star_rating id 3)) = 5"
    using star_rating_has_five_glyphs [OF exact_arithmetic h] by blast
  with h exact_arithmetic show ?thesis
    by blast
qed

section \<open>The lowest scoring domains\<close>

lemma lowest_loop:
  assumes "\<forall>key\<in>fst ` set ks. \<exists>n. numeric_score payload key = Inr n"
  shows "for_each (lowest_step payload) ks acc =
         Inr (acc @ map (\<lambda>(key, kw). kw @ u '': '' @ py_str_int (score_or_zero payload key))
                     (filter (\<lambda>(key, kw). score_or_zero payload key = 1 \<or>
                                            score_or_zero payload key = 2) ks))"
  using assms
proof (induction ks arbitrary: acc)
  case Nil
  show ?case by simp
next
  case (Cons k ks)
  obtain key kw where k: "k = (key, kw)" by (cases k)
  from Cons.prems k obtain n where n: "numeric_score payload key = Inr n"
    by auto
  have "\<forall>key\<in>fst ` set ks. \<exists>n. numeric_score payload key = Inr n"
    using Cons.prems by simp
  from Cons.IH [OF this] k n show ?case
    by (simp add: lowest_step_def score_or_zero_def)
qed

text \<open>
  C10. When \<open>int\<close> can read all eight numeric fields (an absent field counts as 0), the
  string that \<open>get_lowest_scoring_domains\<close> returns lists exactly the fields whose
  score is 1 or 2, each as "Keyword: score", in the order of the keyword table and joined by
  ", "; a score of 3 and an absent field are left out; when no field scores 1 or 2 the
  string is "Geen lage scores". That string is the value of the placeholder
  \<open>{{laagst_scorende_domein}}\<close> on slide index 8.
\<close>

theorem lowest_scoring_domains_are_ones_and_twos:
  assumes "\<forall>key\<in>fst ` set keywords_map. \<exists>n. numeric_score payload key = Inr n"
  shows "get_lowest_scoring_domains payload =
           Inr (let low = map (\<lambda>(key, kw). kw @ u '': '' @ py_str_int (score_or_zero payload key))
                            (filter (\<lambda>(key, kw). score_or_zero payload key = 1 \<or>
                                                   score_or_zero payload key = 2) keywords_map)
                in if low = [] then u ''Geen lage scores'' else py_join (u '', '') low) \<and>
         (\<forall>key. payload key = None \<longrightarrow> score_or_zero payload key = 0) \<and>
         py_str_int 1 = u ''1'' \<and> py_str_int 2 = u ''2'' \<and>
         map_of (slide_replacements payload report_date transitiefase lowest_domains) 8 =
           Some [(u ''{{organisatie}}'', pget payload (u ''Organization'') (PStr [])),
                 (u ''{{transitiefase}}'', PStr transitiefase),
                 (u ''{{laagst_scorende_domein}}'', PStr lowest_domains)]"
proof -
  have a: "get_lowest_scoring_domains payload =
           Inr (let low = map (\<lambda>(key, kw). kw @ u '': '' @ py_str_int (score_or_zero payload key))
                            (filter (\<lambda>(key, kw). score_or_zero payload key = 1 \<or>
                                                   score_or_zero payload key = 2) keywords_map)
                in if low = [] then u ''Geen lage scores'' else py_join (u '', '') low)"
    unfolding get_lowest_scoring_domains_def lowest_loop [OF assms]
    by (simp add: Let_def)
  have b: "\<forall>key. payload key = None \<longrightarrow> score_or_zero payload key = 0"
    by (simp add: score_or_zero_def numeric_score_def pget_def)
  have c: "map_of (slide_replacements payload report_date transitiefase lowest_domains) 8 =
           Some [(u ''{{organisatie}}'', pget payload (u ''Organization'') (PStr [])),
                 (u ''{{transitiefase}}'', PStr transitiefase),
                 (u ''{{laagst_scorende_domein}}'', PStr lowest_domains)]"
    by (simp add: slide_replacements_def Let_def)
  from a b c str_digit show ?thesis
    by blast
qed

lemma scores_two_low:
  "numeric_score payload_two_low (u ''Governance_Q1_Numeric'') = Inr 1"
  "numeric_score payload_two_low (u ''Governance_Q2_Numeric'') = Inr 0"
  "numeric_score payload_two_low (u ''Structuur_Q1_Numeric'') = Inr 0"
  "numeric_score payload_two_low (u ''Structuur_Q2_Numeric'') = Inr 2"
  "numeric_score payload_two_low (u ''Proces_Q1_Numeric'') = Inr 3"
  "numeric_score payload_two_low (u ''Proces_Q2_Numeric'') = Inr 0"
  "numeric_score payload_two_low (u ''Uitkomsten_en_sturing_Q1_Numeric'') = Inr 0"
  "numeric_score payload_two_low (u ''Uitkomsten_en_sturing_Q2_Numeric'') = Inr 0"
  by (simp_all add: numeric_score_def pget_def payload_two_low_def)

theorem lowest_scoring_domains_are_ones_and_twos_witness:
  "get_lowest_scoring_domains payload_two_low = Inr (u ''Visie: 1, Tools: 2'') \<and>
   get_lowest_scoring_domains Map.empty = Inr (u ''Geen lage scores'')"
proof -
  have h: "\<forall>key\<in>fst ` set keywords_map. \<exists>n. numeric_score payload_two_low key = Inr n"
    by (simp add: keywords_map_def scores_two_low)
  have h0: "\<forall>key\<in>fst ` set keywords_map. \<exists>n. numeric_score Map.empty key = Inr n"
    by (simp add: keywords_map_def numeric_score_def pget_def)
  have 1: "get_lowest_scoring_domains payload_two_low = Inr (u ''Visie: 1, Tools: 2'')"
    using lowest_scoring_domains_are_ones_and_twos [OF h]
    apply (simp add: keywords_map_def score_or_zero_def scores_two_low Let_def)
    apply (simp add: u_def)
    done
  have 2: "get_lowest_scoring_domains Map.empty = Inr (u ''Geen lage scores'')"
    using lowest_scoring_domains_are_ones_and_twos [OF h0]
    by (simp add: keywords_map_def score_or_zero_def numeric_score_def pget_def Let_def)
  from 1 2 show ?thesis by simp
qed

section \<open>Slides that are not there\<close>

lemma at_slide_length: "at_slide i f p = Inr p' \<Longrightarrow> length p' = length p"
  by (auto simp: at_slide_def split: if_splits sum.splits)

lemma at_slide_other: "at_slide i f p = Inr p' \<Longrightarrow> j \<noteq> i \<Longrightarrow> p' ! j = p ! j"
  by (auto simp: at_slide_def split: if_splits sum.splits)

lemma guarded_for_each:
  "for_each (\<lambda>x pres. if fst x < length pres then at_slide (fst x) (g x) pres else Inr pres) xs p =
   for_each (\<lambda>x. at_slide (fst x) (g x)) (filter (\<lambda>x. fst x < length p) xs) p"
proof (induction xs arbitrary: p)
  case Nil
  show ?case by simp
next
  case (Cons x xs)
  show ?case
  proof (cases "fst x < length p")
    case True
    show ?thesis
    proof (cases "at_slide (fst x) (g x) p")
      case (Inl e)
      with True show ?thesis by simp
    next
      case (Inr p')
      then have "length p' = length p" by (rule at_slide_length)
      with True Inr Cons.IH [of p'] show ?thesis by simp
    qed
  next
    case False
    with Cons.IH [of p] show ?thesis by simp
  qed
qed

lemma for_each_at_slide_frame:
  assumes "for_each (\<lambda>x. at_slide (fst x) (g x)) xs p = Inr p'"
  shows "length p' = length p \<and> (\<forall>i. i \<notin> fst ` set xs \<longrightarrow> p' ! i = p ! i)"
  using assms
proof (induction xs arbitrary: p)
  case Nil
  then show ?case by simp
next
  case (Cons x xs)
  from Cons.prems obtain q where q: "at_slide (fst x) (g x) p = Inr q"
      and r: "for_each (\<lambda>x. at_slide (fst x) (g x)) xs q = Inr p'"
    by (auto split: sum.splits)
  from Cons.IH [OF r] at_slide_length [OF q] at_slide_other [OF q] show ?case
    by auto
qed

lemma add_charts_as_loop:
  "add_charts_to_slides R presentation payload =
   for_each (\<lambda>sf pres. if fst sf < length pres then at_slide (fst sf) (snd sf) pres else Inr pres)
     (chart_slides R payload) presentation"
  by (simp add: add_charts_to_slides_def chart_slides_def split: sum.splits)

lemma chart_targets: "fst ` set (chart_slides R payload) = {3, 4, 5, 6, 7}"
  by (auto simp: chart_slides_def)

lemma replacement_targets:
  "fst ` set (slide_replacements payload report_date tf low) = {0, 3, 8}"
  by (auto simp: slide_replacements_def Let_def)

lemma frame_filtered:
  assumes "for_each (\<lambda>x. at_slide (fst x) (g x)) (filter (\<lambda>x. fst x < n) xs) p = Inr p'"
    and "fst ` set xs = T"
  shows "length p' = length p \<and> (\<forall>i. i \<notin> T \<longrightarrow> p' ! i = p ! i)"
proof -
  have "fst ` set (filter (\<lambda>x. fst x < n) xs) \<subseteq> T"
    using assms(2) by auto
  with for_each_at_slide_frame [OF assms(1)] show ?thesis
    by blast
qed

lemma for_each_at_slide_succeeds:
  assumes "\<forall>x\<in>set xs. fst x < length p \<and> (\<forall>s. \<exists>s'. g x s = Inr s')"
  shows "\<exists>p'. for_each (\<lambda>x. at_slide (fst x) (g x)) xs p = Inr p'"
  using assms
proof (induction xs arbitrary: p)
  case Nil
  show ?case by simp
next
  case (Cons x xs)
  from Cons.prems obtain s' where s': "g x (p ! fst x) = Inr s'" and lt: "fst x < length p"
    by (metis list.set_intros(1))
  then have step: "at_slide (fst x) (g x) p = Inr (p[fst x := s'])"
    by (simp add: at_slide_def)
  have "\<forall>y\<in>set xs. fst y < length (p[fst x := s']) \<and> (\<forall>s. \<exists>s'. g y s = Inr s')"
    using Cons.prems by simp
  from Cons.IH [OF this] step show ?case
    by simp
qed

lemma paragraph_steps_succeed:
  assumes "\<forall>pv\<in>set reps. \<exists>v. snd pv = PStr v"
  shows "\<exists>st'. for_each (paragraph_step t) reps st = Inr st'"
  using assms
proof (induction reps arbitrary: st)
  case Nil
  show ?case by simp
next
  case (Cons pv reps)
  from Cons.prems obtain v where "snd pv = PStr v" by auto
  then have "\<exists>st1. paragraph_step t pv st = Inr st1"
    by (cases "py_contains (fst pv) t") (auto simp: paragraph_step_def)
  then obtain st1 where "paragraph_step t pv st = Inr st1" ..
  moreover have "\<forall>pv\<in>set reps. \<exists>v. snd pv = PStr v"
    using Cons.prems by simp
  ultimately show ?case
    using Cons.IH by simp
qed

lemma plain_steps_succeed:
  assumes "\<forall>pv\<in>set reps. \<exists>v. snd pv = PStr v"
  shows "\<exists>t'. for_each plain_step reps t = Inr t'"
  using assms
proof (induction reps arbitrary: t)
  case Nil
  show ?case by simp
next
  case (Cons pv reps)
  from Cons.prems obtain v where "snd pv = PStr v" by auto
  then have "\<exists>t1. plain_step pv t = Inr t1"
    by (simp add: plain_step_def)
  then obtain t1 where "plain_step pv t = Inr t1" ..
  moreover have "\<forall>pv\<in>set reps. \<exists>v. snd pv = PStr v"
    using Cons.prems by simp
  ultimately show ?case
    using Cons.IH by simp
qed

lemma map_each_succeeds:
  assumes "\<forall>x\<in>set xs. \<exists>y. f x = Inr y"
  shows "\<exists>ys. map_each f xs = Inr ys"
  using assms
proof (induction xs)
  case Nil
  show ?case by simp
next
  case (Cons x xs)
  then obtain y ys where "f x = Inr y" "map_each f xs = Inr ys"
    by auto
  then show ?case by simp
qed

lemma process_paragraph_succeeds:
  assumes "\<forall>pv\<in>set reps. \<exists>v. snd pv = PStr v"
  shows "\<exists>q. process_paragraph reps p = Inr q"
proof -
  from paragraph_steps_succeed [OF assms]
  obtain st' where "for_each (paragraph_step (paragraph_text p)) reps (paragraph_text p, False) = Inr st'"
    by blast
  then show ?thesis
    by (simp add: process_paragraph_def)
qed

lemma process_shape_succeeds:
  assumes "\<forall>pv\<in>set reps. \<exists>v. snd pv = PStr v"
  shows "\<exists>sh'. process_shape reps sh = Inr sh'"
proof (cases sh)
  case (TextFrame ps)
  have "\<exists>qs. map_each (process_paragraph reps) ps = Inr qs"
    using process_paragraph_succeeds [OF assms] by (intro map_each_succeeds) blast
  with TextFrame show ?thesis
    by (auto simp: process_shape_def)
next
  case (PlainText t)
  from plain_steps_succeed [OF assms] obtain t' where "for_each plain_step reps t = Inr t'"
    by blast
  with PlainText show ?thesis
    by (simp add: process_shape_def)
next
  case (Picture img r)
  then show ?thesis by (simp add: process_shape_def)
next
  case OtherShape
  then show ?thesis by (simp add: process_shape_def)
qed

lemma process_slide_succeeds:
  assumes "\<forall>pv\<in>set reps. \<exists>v. snd pv = PStr v"
  shows "\<exists>sl'. process_slide reps sl = Inr sl'"
  unfolding process_slide_def
  using process_shape_succeeds [OF assms] by (intro map_each_succeeds) blast

lemma replacements_are_strings:
  assumes "pget payload (u ''Organization'') (PStr []) = PStr org"
  shows "\<forall>sr\<in>set (slide_replacements payload report_date tf low).
           \<forall>pv\<in>set (snd sr). \<exists>v. snd pv = PStr v"
  using assms by (simp add: slide_replacements_def Let_def)


lemma add_charts_fail_at:
  assumes "(i, f) \<in> set (chart_slides R payload)"
    and "i < length presentation"
    and "\<And>s. \<exists>e. f s = Inl e"
  shows "\<exists>e. add_charts_to_slides R presentation payload = Inl e"
proof -
  have "(i, f) \<in> set (filter (\<lambda>sf. fst sf < length presentation) (chart_slides R payload))"
    using assms(1,2) by simp
  moreover have "\<exists>e. at_slide (fst (i, f)) (snd (i, f)) p = Inl e" for p :: "'a presentation"
    using assms(3) [of "p ! i"] by (auto simp: at_slide_def)
  ultimately have "\<exists>e. for_each (\<lambda>sf. at_slide (fst sf) (snd sf))
      (filter (\<lambda>sf. fst sf < length presentation) (chart_slides R payload)) presentation = Inl e"
    by (rule for_each_fails)
  then show ?thesis
    by (simp only: add_charts_as_loop guarded_for_each)
qed

text \<open>
  C9. For a presentation of any length N, \<open>add_charts_to_slides\<close> does exactly what
  working on the target slides 3 to 7 that exist (index below N) does, in order, and
  \<open>replace_placeholders\<close> does, once its values are computed, exactly what substituting
  on the target slides 0, 3 and 8 that exist does: a target at or beyond N is skipped and
  adds no error. With at most three slides \<open>add_charts_to_slides\<close> returns the
  presentation as it is, whatever the renderers and the payload. A successful run keeps
  the number of slides and every slide that is not a target. When the renderers succeed on
  the payload, \<open>add_charts_to_slides\<close> succeeds for every N; when the placeholder values
  can be computed and the organization is a string, \<open>replace_placeholders\<close> succeeds for
  every N.
\<close>

theorem missing_slides_are_skipped:
  "add_charts_to_slides R presentation payload =
     for_each (\<lambda>sf. at_slide (fst sf) (snd sf))
       (filter (\<lambda>sf. fst sf < length presentation) (chart_slides R payload)) presentation \<and>
   replace_placeholders presentation payload report_date =
     (case get_transitiefase (pget payload (u ''Total_Sum'') (PStr (u ''0''))) of
        Inl e \<Rightarrow> Inl e
      | Inr transitiefase \<Rightarrow>
          (case get_lowest_scoring_domains payload of
             Inl e \<Rightarrow> Inl e
           | Inr lowest_domains \<Rightarrow>
               for_each (\<lambda>sr. at_slide (fst sr) (process_slide (snd sr)))
                 (filter (\<lambda>sr. fst sr < length presentation)
                    (slide_replacements payload report_date transitiefase lowest_domains))
                 presentation)) \<and>
   (length presentation \<le> 3 \<longrightarrow> add_charts_to_slides R presentation payload = Inr presentation) \<and>
   (\<forall>p'. add_charts_to_slides R presentation payload = Inr p' \<longrightarrow>
      length p' = length presentation \<and>
      (\<forall>i. i \<notin> {3, 4, 5, 6, 7} \<longrightarrow> p' ! i = presentation ! i)) \<and>
   (\<forall>p'. replace_placeholders presentation payload report_date = Inr p' \<longrightarrow>
      length p' = length presentation \<and>
      (\<forall>i. i \<notin> {0, 3, 8} \<longrightarrow> p' ! i = presentation ! i)) \<and>
   ((\<forall>x\<in>set (chart_slides R payload). \<forall>s. \<exists>s'. snd x s = Inr s') \<longrightarrow>
      (\<exists>p'. add_charts_to_slides R presentation payload = Inr p')) \<and>
   ((\<exists>tf low org.
        get_transitiefase (pget payload (u ''Total_Sum'') (PStr (u ''0''))) = Inr tf \<and>
        get_lowest_scoring_domains payload = Inr low \<and>
        pget payload (u ''Organization'') (PStr []) = PStr org) \<longrightarrow>
      (\<exists>p'. replace_placeholders presentation payload report_date = Inr p'))"
proof -
  have a: "add_charts_to_slides R presentation payload =
     for_each (\<lambda>sf. at_slide (fst sf) (snd sf))
       (filter (\<lambda>sf. fst sf < length presentation) (chart_slides R payload)) presentation"
    by (simp only: add_charts_as_loop guarded_for_each)
  have b: "replace_placeholders presentation payload report_date =
     (case get_transitiefase (pget payload (u ''Total_Sum'') (PStr (u ''0''))) of
        Inl e \<Rightarrow> Inl e
      | Inr transitiefase \<Rightarrow>
          (case get_lowest_scoring_domains payload of
             Inl e \<Rightarrow> Inl e
           | Inr lowest_domains \<Rightarrow>
               for_each (\<lambda>sr. at_slide (fst sr) (process_slide (snd sr)))
                 (filter (\<lambda>sr. fst sr < length presentation)
                    (slide_replacements payload report_date transitiefase lowest_domains))
                 presentation))"
    by (simp only: replace_placeholders_def guarded_for_each)
  have c: "length presentation \<le> 3 \<longrightarrow>
           add_charts_to_slides R presentation payload = Inr presentation"
    by (simp add: a chart_slides_def)
  have d: "\<forall>p'. add_charts_to_slides R presentation payload = Inr p' \<longrightarrow>
      length p' = length presentation \<and>
      (\<forall>i. i \<notin> {3, 4, 5, 6, 7} \<longrightarrow> p' ! i = presentation ! i)"
    unfolding a using frame_filtered [OF _ chart_targets] by blast
  have e: "\<forall>p'. replace_placeholders presentation payload report_date = Inr p' \<longrightarrow>
      length p' = length presentation \<and>
      (\<forall>i. i \<notin> {0, 3, 8} \<longrightarrow> p' ! i = presentation ! i)"
  proof (intro allI impI)
    fix p'
    assume r: "replace_placeholders presentation payload report_date = Inr p'"
    then obtain tf low where
      "for_each (\<lambda>sr. at_slide (fst sr) (process_slide (snd sr)))
         (filter (\<lambda>sr. fst sr < length presentation)
            (slide_replacements payload report_date tf low)) presentation = Inr p'"
      unfolding b by (auto split: sum.splits)
    from frame_filtered [OF this replacement_targets]
    show "length p' = length presentation \<and> (\<forall>i. i \<notin> {0, 3, 8} \<longrightarrow> p' ! i = presentation ! i)" .
  qed
  have f: "(\<forall>x\<in>set (chart_slides R payload). \<forall>s. \<exists>s'. snd x s = Inr s') \<longrightarrow>
      (\<exists>p'. add_charts_to_slides R presentation payload = Inr p')"
    unfolding a by (intro impI for_each_at_slide_succeeds) simp
  have g: "(\<exists>tf low org.
        get_transitiefase (pget payload (u ''Total_Sum'') (PStr (u ''0''))) = Inr tf \<and>
        get_lowest_scoring_domains payload = Inr low \<and>
        pget payload (u ''Organization'') (PStr []) = PStr org) \<longrightarrow>
      (\<exists>p'. replace_placeholders presentation payload report_date = Inr p')"
  proof
    assume "\<exists>tf low org.
        get_transitiefase (pget payload (u ''Total_Sum'') (PStr (u ''0''))) = Inr tf \<and>
        get_lowest_scoring_domains payload = Inr low \<and>
        pget payload (u ''Organization'') (PStr []) = PStr org"
    then obtain tf low org where
        v: "get_transitiefase (pget payload (u ''Total_Sum'') (PStr (u ''0''))) = Inr tf"
          "get_lowest_scoring_domains payload = Inr low"
        and o: "pget payload (u ''Organization'') (PStr []) = PStr org"
      by blast
    have "\<exists>p'. for_each (\<lambda>sr. at_slide (fst sr) (process_slide (snd sr)))
                 (filter (\<lambda>sr. fst sr < length presentation)
                    (slide_replacements payload report_date tf low))
                 presentation = Inr p'"
    proof (rule for_each_at_slide_succeeds, intro ballI conjI allI)
      fix sr s
      assume sr: "sr \<in> set (filter (\<lambda>sr. fst sr < length presentation)
                    (slide_replacements payload report_date tf low))"
      then show "fst sr < length presentation"
        by simp
      from sr have "sr \<in> set (slide_replacements payload report_date tf low)"
        by simp
      with replacements_are_strings [OF o, of report_date tf low]
      have "\<forall>pv\<in>set (snd sr). \<exists>v. snd pv = PStr v"
        by blast
      then show "\<exists>s'. process_slide (snd sr) s = Inr s'"
        by (rule process_slide_succeeds)
    qed
    with v show "\<exists>p'. replace_placeholders presentation payload report_date = Inr p'"
      unfolding b by simp
  qed
  from a b c d e f g show ?thesis
    by blast
qed

lemma transitiefase_org: "get_transitiefase (pget payload_org (u ''Total_Sum'') (PStr (u ''0''))) = Inr (u ''Startfase'')"
  by (simp add: get_transitiefase_def pget_def payload_org_def py_int_str_def py_strip_def
      py_isspace_def is_digit_def u_def)

lemma lowest_org: "get_lowest_scoring_domains payload_org = Inr (u ''Geen lage scores'')"
  by (simp add: get_lowest_scoring_domains_def keywords_map_def lowest_step_def numeric_score_def
      pget_def payload_org_def)

lemma contains_org:
  "py_contains (u ''{{organisatie}}'') (u ''{{organisatie}}'')"
  "\<not> py_contains (u ''{{rapport_datum}}'') (u ''Acme'')"
  "\<not> py_contains (u ''{{respondent_naam}}'') (u ''Acme'')"
  "py_replace (u ''{{organisatie}}'') (u ''Acme'') (u ''{{organisatie}}'') = u ''Acme''"
  "clean_text (u ''Acme'') = u ''Acme''"
  by (simp_all add: clean_eval)

lemma replaced_two_slides: "replace_placeholders two_slides payload_org (u ''04-11-2026'') =
    Inr [[PlainText (u ''Acme'')], [OtherShape]]"
  unfolding replace_placeholders_def transitiefase_org lowest_org
  by (simp add: slide_replacements_def Let_def two_slides_def at_slide_def process_slide_def
      process_shape_def plain_step_def pget_def payload_org_def contains_org)


theorem missing_slides_are_skipped_witness:
  "length two_slides \<le> 3 \<and>
   add_charts_to_slides failing_renderers two_slides payload_unparseable = Inr two_slides \<and>
   add_charts_to_slides plain_renderers five_slides payload_unparseable =
     Inr [[], [], [],
          [Picture (Drawn 0) (1 / 2, 3 / 5, 12, 4)],
          [Picture (Drawn 0) (2, 5 / 2, 9, 4)]] \<and>
   replace_placeholders two_slides payload_org (u ''04-11-2026'') =
     Inr [[PlainText (u ''Acme'')], [OtherShape]]"
proof -
  note t = missing_slides_are_skipped [of failing_renderers two_slides payload_unparseable]
  have l: "length two_slides \<le> 3"
    by (simp add: two_slides_def)
  with t have 1: "add_charts_to_slides failing_renderers two_slides payload_unparseable = Inr two_slides"
    by blast
  have 2: "add_charts_to_slides plain_renderers five_slides payload_unparseable =
     Inr [[], [], [],
          [Picture (Drawn 0) (1 / 2, 3 / 5, 12, 4)],
          [Picture (Drawn 0) (2, 5 / 2, 9, 4)]]"
    by (simp add: add_charts_to_slides_def five_slides_def at_slide_def plain_renderers_def
        add_score_breakdown_to_slide4_def add_domain_scores_chart_def add_picture_def)
  from l 1 2 replaced_two_slides show ?thesis
    by blast
qed



section \<open>An unparseable text score\<close>

text \<open>
  C2, as amended. For every payload in which one of the eight text score fields holds a
  string that is not blank and whose part before the first dot \<open>int\<close> cannot read, score
  extraction raises \<open>ValueError\<close> in both table renderers, each renderer passes the
  error on, and \<open>add_charts_to_slides\<close> fails whenever the presentation has the slide
  of the recommendations table (index 6): the field is not given the score 0 and the
  condition is fatal.
\<close>

theorem unparseable_text_is_fatal:
  assumes "(field, subdomain) \<in> set field_mapping"
    and "payload field = Some (PStr t)"
    and "py_strip t \<noteq> []"
    and "leading_int t = Inl e"
  shows "create_concrete_recommendations_report payload = Inl ValueError \<and>
         create_support_overview_report payload = Inl ValueError \<and>
         (\<forall>R presentation. 6 < length presentation \<longrightarrow>
            (\<exists>e'. add_charts_to_slides R presentation payload = Inl e'))"
proof -
  have r: "\<exists>e'. for_each (rec_text_step payload) field_mapping [] = Inl e'"
    using assms by (intro for_each_fails [OF assms(1)]) (simp add: unparseable_step)
  have s: "\<exists>e'. for_each (sup_text_step payload) field_mapping [] = Inl e'"
    using assms by (intro for_each_fails [OF assms(1)]) (simp add: unparseable_step)
  from r have "\<exists>e'. recommendation_scores payload = Inl e'"
    by (auto simp: recommendation_scores_def)
  then have r': "recommendation_scores payload = Inl ValueError"
    using recommendation_scores_error by blast
  from s have "\<exists>e'. support_scores payload = Inl e'"
    by (auto simp: support_scores_def)
  then have s': "support_scores payload = Inl ValueError"
    using support_scores_error by blast
  from r' s' have reports:
    "create_concrete_recommendations_report payload = Inl ValueError \<and>
     create_support_overview_report payload = Inl ValueError"
    by (simp add: create_concrete_recommendations_report_def create_support_overview_report_def)
  have "\<exists>e'. add_charts_to_slides R presentation payload = Inl e'"
    if "6 < length presentation" for R :: "'a renderers" and presentation
  proof (rule add_charts_fail_at [OF _ that])
    show "(6, \<lambda>slide. add_concrete_recommendations_to_slide7 slide payload)
          \<in> set (chart_slides R payload)"
      by (simp add: chart_slides_def)
    show "\<exists>e. add_concrete_recommendations_to_slide7 s payload = Inl e" for s :: "'a slide"
      using reports by (simp add: add_concrete_recommendations_to_slide7_def)
  qed
  with reports show ?thesis
    by blast
qed

lemma no_answer_facts:
  "(u ''Proces_Q2'', u ''Leren en verbeteren'') \<in> set field_mapping"
  "payload_no_answer (u ''Proces_Q2'') = Some (PStr (u ''geen antwoord''))"
  "py_strip (u ''geen antwoord'') \<noteq> []"
  "leading_int (u ''geen antwoord'') = Inl ValueError"
  by (simp_all add: field_mapping_def payload_no_answer_def u_def py_strip_def py_isspace_def
      leading_int_def py_int_str_def is_digit_def)

theorem unparseable_text_is_fatal_witness:
  "payload_no_answer (u ''Proces_Q2'') = Some (PStr (u ''geen antwoord'')) \<and>
   leading_int (u ''geen antwoord'') = Inl ValueError \<and>
   create_concrete_recommendations_report payload_no_answer = Inl ValueError \<and>
   create_support_overview_report payload_no_answer = Inl ValueError \<and>
   (\<exists>e'. add_charts_to_slides plain_renderers seven_slides payload_no_answer = Inl e')"
proof -
  have t: "create_concrete_recommendations_report payload_no_answer = Inl ValueError \<and>
         create_support_overview_report payload_no_answer = Inl ValueError \<and>
         (\<forall>(R :: nat renderers) presentation. 6 < length presentation \<longrightarrow>
            (\<exists>e'. add_charts_to_slides R presentation payload_no_answer = Inl e'))"
    using no_answer_facts
    by (intro unparseable_text_is_fatal
          [of "u ''Proces_Q2''" "u ''Leren en verbeteren''" payload_no_answer
              "u ''geen antwoord''" ValueError])
  have "6 < length seven_slides"
    by (simp add: seven_slides_def)
  with t have "\<exists>e'. add_charts_to_slides plain_renderers seven_slides payload_no_answer = Inl e'"
    by blast
  with t no_answer_facts(2,4) show ?thesis
    by blast
qed

text \<open>
  The claim as stated fails: with \<open>Governance_Q1\<close> = "n.v.t." the part before the first
  dot is "n", and both renderers end in \<open>ValueError\<close> instead of using the score 0; so
  does \<open>add_charts_to_slides\<close> on a deck of seven slides.
\<close>

theorem unparseable_text_counterexample:
  "payload_unparseable (u ''Governance_Q1'') = Some (PStr (u ''n.v.t.'')) \<and>
   create_concrete_recommendations_report payload_unparseable = Inl ValueError \<and>
   create_support_overview_report payload_unparseable = Inl ValueError \<and>
   add_charts_to_slides plain_renderers seven_slides payload_unparseable = Inl ValueError"
proof -
  have n: "nonblank_text (PStr (u ''n.v.t.'')) = Some (u ''n.v.t.'')"
    by (simp add: u_def py_strip_def py_isspace_def)
  have l: "leading_int (u ''n.v.t.'') = Inl ValueError"
    by (simp add: leading_int_def u_def py_int_str_def py_strip_def py_isspace_def is_digit_def)
  have "recommendation_scores payload_unparseable = Inl ValueError"
    by (simp add: payload_eval payload_unparseable_def n l del: nonblank_text.simps)
  moreover have "support_scores payload_unparseable = Inl ValueError"
    by (simp add: payload_eval payload_unparseable_def n l del: nonblank_text.simps)
  ultimately have reports:
    "create_concrete_recommendations_report payload_unparseable = Inl ValueError \<and>
     create_support_overview_report payload_unparseable = Inl ValueError"
    by (simp add: create_concrete_recommendations_report_def create_support_overview_report_def)
  then have "add_charts_to_slides plain_renderers seven_slides payload_unparseable = Inl ValueError"
    by (simp add: add_charts_to_slides_def seven_slides_def at_slide_def plain_renderers_def
        add_score_breakdown_to_slide4_def add_domain_scores_chart_def
        add_detailed_reports_to_slide6_def add_concrete_recommendations_to_slide7_def
        add_picture_def)
  with reports show ?thesis
    by (simp add: payload_unparseable_def)
qed

end
